(* ===== verification/Yew_Prelude.thy ===== *)
theory Yew_Prelude
  imports Main "HOL-Library.Word"
begin

text \<open>
  Shared vocabulary of the development. Rust's panics are values of the datatype
  \<open>panic\<close>, and a computation that may panic returns \<open>'a result\<close>, that is
  \<open>panic + 'a\<close> with \<open>Inl\<close> for the panic. \<open>bind_res\<close> sequences two such
  computations the way Rust's evaluation order does: the first panic aborts the rest.
  \<open>vec_index\<close> and \<open>vec_set\<close> are \<open>Vec\<close>'s \<open>Index\<close> and \<open>IndexMut\<close>
  (\<open>xs[i]\<close> and \<open>xs[i] = v\<close>), which panic with the index and the length when the
  index is out of range; \<open>unwrap_opt\<close> is \<open>Option::unwrap\<close> and \<open>unwrap_res\<close> is
  \<open>Result::unwrap\<close>. \<open>u32\<close> is the 32-bit word of the loop counters.
  The collections \<open>res_simps\<close> (evaluation of these combinators) and
  \<open>model_simps\<close> (characteristic equations of the components' operations) carry the
  component proofs.
\<close>

named_theorems res_simps "evaluation rules of the panic combinators"
named_theorems model_simps "characteristic equations of the modelled operations"

datatype panic =
    IndexOutOfBounds nat nat \<comment> \<open>index, length: \<open>index out of bounds: the len is .. but the index is ..\<close>\<close>
  | Unreachable \<comment> \<open>\<open>unreachable!()\<close>\<close>
  | UnwrapNone \<comment> \<open>\<open>Option::unwrap\<close> on \<open>None\<close>\<close>
  | UnwrapErr \<comment> \<open>\<open>Result::unwrap\<close> on \<open>Err\<close>\<close>

type_synonym 'a result = "panic + 'a"

definition bind_res :: "'a result \<Rightarrow> ('a \<Rightarrow> 'b result) \<Rightarrow> 'b result" where
  "bind_res r f = (case r of Inl e \<Rightarrow> Inl e | Inr a \<Rightarrow> f a)"

definition vec_index :: "'a list \<Rightarrow> nat \<Rightarrow> 'a result" where
  "vec_index xs i = (if i < length xs then Inr (xs ! i) else Inl (IndexOutOfBounds i (length xs)))"

definition vec_set :: "'a list \<Rightarrow> nat \<Rightarrow> 'a \<Rightarrow> 'a list result" where
  "vec_set xs i v = (if i < length xs then Inr (xs[i := v]) else Inl (IndexOutOfBounds i (length xs)))"

definition unwrap_opt :: "'a option \<Rightarrow> 'a result" where
  "unwrap_opt x = (case x of None \<Rightarrow> Inl UnwrapNone | Some a \<Rightarrow> Inr a)"

definition unwrap_res :: "'e + 'a \<Rightarrow> 'a result" where
  "unwrap_res x = (case x of Inl _ \<Rightarrow> Inl UnwrapErr | Inr a \<Rightarrow> Inr a)"

subsection \<open>Rust's \<open>u32\<close>\<close>

text \<open>
  \<open>u32\<close> is a 32-bit word: \<open>+\<close> wraps modulo \<open>2 ^ 32\<close> and \<open>unat\<close> reads
  the number. A \<open>for i in a..b\<close> loop over \<open>u32\<close> runs its body while \<open>i < b\<close>
  and then steps to \<open>i + 1\<close>, which cannot wrap since \<open>i\<close> is below \<open>b\<close>
  (\<open>unat_add_one_below\<close>).
\<close>

type_synonym u32 = "32 word"

subsection \<open>Rust's \<open>format!\<close> for the values the components print\<close>

text \<open>
  \<open>{:?}\<close> of a \<open>str\<close> quotes it and escapes with \<open>char::escape_debug\<close>: tab,
  return, newline, backslash, double quote and NUL get a backslash escape, the other
  ASCII control characters are written \<open>\\u{hex}\<close>. A string here is a byte list,
  so bytes above 127 are printed as they are (Rust's escaping of non-printable non-ASCII
  characters is not modelled). \<open>{:#?}\<close> of a \<open>Vec<String>\<close> prints \<open>[]\<close> when
  it is empty and otherwise one element per line, indented by four spaces, each followed
  by a comma.
\<close>

definition hex_digit :: "nat \<Rightarrow> char" where
  "hex_digit n = ''0123456789abcdef'' ! n"

fun hex_string :: "nat \<Rightarrow> string" where
  "hex_string n = (if n < 16 then [hex_digit n] else hex_string (n div 16) @ [hex_digit (n mod 16)])"

declare hex_string.simps [simp del]

definition escape_debug :: "char \<Rightarrow> string" where
  "escape_debug c =
     (if c = CHR 0x09 then [CHR 0x5C, CHR ''t'']
      else if c = CHR 0x0D then [CHR 0x5C, CHR ''r'']
      else if c = CHR 0x0A then [CHR 0x5C, CHR ''n'']
      else if c = CHR 0x5C then [CHR 0x5C, CHR 0x5C]
      else if c = CHR 0x22 then [CHR 0x5C, CHR 0x22]
      else if c = CHR 0x00 then [CHR 0x5C, CHR ''0'']
      else if of_char c < (32::nat) \<or> of_char c = (127::nat)
      then [CHR 0x5C, CHR ''u'', CHR 0x7B] @ hex_string (of_char c) @ [CHR 0x7D]
      else [c])"

definition debug_string :: "string \<Rightarrow> string" where
  "debug_string s = CHR 0x22 # concat (map escape_debug s) @ [CHR 0x22]"

definition debug_pretty_vec :: "string list \<Rightarrow> string" where
  "debug_pretty_vec xs =
     (if xs = [] then ''[]''
      else ''['' @ [CHR 0x0A] @
           concat (map (\<lambda>x. ''    '' @ debug_string x @ '','' @ [CHR 0x0A]) xs) @ '']'')"

subsection \<open>Evaluation rules\<close>

lemma bind_res_Inl [simp, res_simps]: "bind_res (Inl e) f = Inl e"
  by (simp add: bind_res_def)

lemma bind_res_Inr [simp, res_simps]: "bind_res (Inr a) f = f a"
  by (simp add: bind_res_def)

lemma bind_res_eq_Inr:
  "bind_res r f = Inr b \<longleftrightarrow> (\<exists>a. r = Inr a \<and> f a = Inr b)"
  by (cases r) auto

lemma vec_index_in [simp, res_simps]: "i < length xs \<Longrightarrow> vec_index xs i = Inr (xs ! i)"
  by (simp add: vec_index_def)

lemma vec_index_out [simp, res_simps]:
  "length xs \<le> i \<Longrightarrow> vec_index xs i = Inl (IndexOutOfBounds i (length xs))"
  by (simp add: vec_index_def)

lemma vec_set_in [simp, res_simps]: "i < length xs \<Longrightarrow> vec_set xs i v = Inr (xs[i := v])"
  by (simp add: vec_set_def)

lemma vec_set_out [simp, res_simps]:
  "length xs \<le> i \<Longrightarrow> vec_set xs i v = Inl (IndexOutOfBounds i (length xs))"
  by (simp add: vec_set_def)

lemma vec_set_eq_Inr: "vec_set xs i v = Inr ys \<longleftrightarrow> i < length xs \<and> ys = xs[i := v]"
  by (auto simp add: vec_set_def)

lemma unat_add_one_below: "i < (n :: 'a::len word) \<Longrightarrow> unat (i + 1) = Suc (unat i)"
proof -
  assume "i < n"
  then have "unat i < unat n" by (simp add: word_less_nat_alt)
  moreover have "unat n < 2 ^ LENGTH('a)" by (rule unsigned_less)
  ultimately have "unat i + unat (1 :: 'a word) < 2 ^ LENGTH('a)" by (simp only: unsigned_1)
  then show ?thesis by (simp add: unat_add_lem [THEN iffD1])
qed

text \<open>The variant of a \<open>u32\<close> range loop: the count of indices left decreases.\<close>

lemma unat_range_variant:
  "i < (n :: 'a::len word) \<Longrightarrow> unat n - unat (i + 1) < unat n - unat i"
  by (simp add: unat_add_one_below word_less_nat_alt diff_less_mono2)

lemma hex_string_lt: "n < 16 \<Longrightarrow> hex_string n = [hex_digit n]"
  by (subst hex_string.simps) simp

lemma hex_string_ge: "\<not> n < 16 \<Longrightarrow> hex_string n = hex_string (n div 16) @ [hex_digit (n mod 16)]"
  by (subst hex_string.simps) simp

lemma unwrap_opt_simps [simp, res_simps]:
  "unwrap_opt None = Inl UnwrapNone" "unwrap_opt (Some a) = Inr a"
  by (simp_all add: unwrap_opt_def)

lemma unwrap_res_simps [simp, res_simps]:
  "unwrap_res (Inl e) = Inl UnwrapErr" "unwrap_res (Inr a) = Inr a"
  by (simp_all add: unwrap_res_def)

end
