(* ===== verification/Yew_Styles.thy ===== *)
theory Yew_Styles
  imports Yew_Prelude
begin

text \<open>
  The parts of the \<open>yew_styles\<close> library that the three source files call but that are
  not among them: the variant enums (\<open>styles::Palette\<close>, \<open>Style\<close>, \<open>Size\<close>), the
  layout enums passed to layout components, the class-name tables
  \<open>get_palette\<close> (spelt \<open>get_pallete\<close> in \<open>navbar.rs\<close>), \<open>get_style\<close>,
  \<open>get_size\<close>, and \<open>utils::create_style\<close>, which writes one CSS property of the
  elements of a named class. These are modelled from the spec (sections 4.3 and 5): the
  class tables are injective maps to lowercase tokens, and \<open>create_style\<close> writes a
  process-wide table keyed by the class name and the property, the last write winning.
\<close>

datatype palette = Standard | Primary | Secondary | Success | Info | Link | Warning | Danger | Clean

datatype style = Regular | Light | Outline

datatype size = Small | Medium | Big

datatype item_layout = ItXs int | ItS int | ItM int | ItL int | ItXl int

datatype wrap = Wrap | Nowrap | WrapReverse

datatype direction = Row | RowReverse | Column | ColumnReverse

datatype orientation = Horizontal | Vertical

datatype input_type = Text | Password | Email | Number | Search | Tel | Url

datatype mode = NoMode | SafeMode | UnsafeMode

datatype justify_content =
    FlexStart mode | FlexEnd mode | Center mode | SpaceBetween mode | SpaceAround mode
  | SpaceEvenly mode | Start mode | End mode | Left mode | Right mode | Stretch mode

datatype controller_icon = ChevronLeft | ChevronRight | ChevronUp | ChevronDown

fun get_palette :: "palette \<Rightarrow> string" where
  "get_palette Standard = ''standard''"
| "get_palette Primary = ''primary''"
| "get_palette Secondary = ''secondary''"
| "get_palette Success = ''success''"
| "get_palette Info = ''info''"
| "get_palette Link = ''link''"
| "get_palette Warning = ''warning''"
| "get_palette Danger = ''danger''"
| "get_palette Clean = ''clean''"

fun get_style :: "style \<Rightarrow> string" where
  "get_style Regular = ''regular''"
| "get_style Light = ''light''"
| "get_style Outline = ''outline''"

fun get_size :: "size \<Rightarrow> string" where
  "get_size Small = ''small''"
| "get_size Medium = ''medium''"
| "get_size Big = ''big''"

text \<open>
  The style table: for a class name and a CSS property, the value last written by
  \<open>create_style\<close>. \<open>create_style style value wrap\<close> takes its arguments in the
  source's order (property, value, class name).
\<close>

type_synonym style_table = "string \<times> string \<Rightarrow> string option"

definition create_style :: "string \<Rightarrow> string \<Rightarrow> string \<Rightarrow> style_table \<Rightarrow> style_table" where
  "create_style style value wrap t = t((wrap, style) \<mapsto> value)"

subsection \<open>The class tables are injective\<close>

lemma get_palette_inj: "get_palette a = get_palette b \<longleftrightarrow> a = b"
  by (cases a; cases b) simp_all

lemma get_style_inj: "get_style a = get_style b \<longleftrightarrow> a = b"
  by (cases a; cases b) simp_all

lemma get_size_inj: "get_size a = get_size b \<longleftrightarrow> a = b"
  by (cases a; cases b) simp_all

text \<open>
  No token is a prefix of another token followed by a space, so a token and what follows
  its separating space can be read back from a space-separated class string.
\<close>

lemma get_size_sep_eq:
  "get_size a @ CHR '' '' # x = get_size b @ CHR '' '' # y \<longleftrightarrow> a = b \<and> x = y"
  by (cases a; cases b) simp_all

lemma get_style_sep_eq:
  "get_style a @ CHR '' '' # x = get_style b @ CHR '' '' # y \<longleftrightarrow> a = b \<and> x = y"
  by (cases a; cases b) simp_all

lemma get_palette_sep_eq:
  "get_palette a @ CHR '' '' # x = get_palette b @ CHR '' '' # y \<longleftrightarrow> a = b \<and> x = y"
  by (cases a; cases b) simp_all

lemmas class_token_sep_eqs = get_size_sep_eq get_style_sep_eq get_palette_sep_eq

subsection \<open>The style table\<close>

lemma create_style_lookup [simp]:
  "create_style style value wrap t k = (if k = (wrap, style) then Some value else t k)"
  by (simp add: create_style_def)

lemma create_style_overwrite [simp]:
  "create_style style v' wrap (create_style style v wrap t) = create_style style v' wrap t"
  by (simp add: create_style_def)

lemma create_style_commute:
  "(wrap, style) \<noteq> (wrap', style') \<Longrightarrow>
   create_style style v wrap (create_style style' v' wrap' t) =
   create_style style' v' wrap' (create_style style v wrap t)"
  by (auto simp add: create_style_def fun_upd_twist)

end
