(* ===== verification/Yew_Html.thy ===== *)
theory Yew_Html
  imports Yew_Styles
begin

text \<open>
  The framework the components run in (yew and web-sys), as far as the components
  depend on it. It holds
  \<^item> the platform events a callback receives (\<open>InputData\<close>, \<open>ChangeData\<close>,
    \<open>MouseEvent\<close>) and the DOM objects a \<open>ChangeData::Select\<close> carries, with the
    web-sys reads the adapters call (\<open>options().length()\<close>, \<open>get_with_index\<close>,
    \<open>dyn_into\<close>, \<open>HtmlSelectElement::value\<close>);
  \<^item> the tree an \<open>html!\<close> block builds: tags and components with their attributes,
    where an attribute is a value or a callback, and \<open>VForeign\<close> is a node the
    component received from its parent and renders untouched (\<open>Children\<close>);
  \<^item> which callbacks a rendered tree carries, and how the platform delivers an event to
    one of them (\<open>dom_delivers\<close>, \<open>fire\<close>);
  \<^item> the component contract of section 4.1 of the spec as a record of operations
    (\<open>create\<close>, \<open>mounted\<close>, \<open>update\<close>, \<open>change\<close>, \<open>view\<close>) over an outside
    \<open>world\<close> (the style table and the callbacks emitted to the parent), the scheduler
    \<open>run\<close> that folds lifecycle events and re-renders when asked, and the states a
    user can reach through the rendered callbacks (\<open>ui_reachable\<close>), with the generic
    invariant rules the components instantiate.
\<close>

subsection \<open>Platform events and DOM objects\<close>

record input_data =
  input_value :: string

record option_element =
  opt_value :: string
  opt_selected :: bool

datatype element = OptionElement option_element | OtherElement string

record select_element =
  sel_options :: "element list"

datatype change_data =
    Change_Value string
  | Change_Select select_element
  | Change_Files "string list"

record mouse_event =
  client_x :: int
  client_y :: int

datatype event = EvInput input_data | EvChange change_data | EvClick mouse_event

type_synonym options_collection = "element list"

definition select_options :: "select_element \<Rightarrow> options_collection" where
  "select_options sel = sel_options sel"

text \<open>
  \<open>HtmlOptionsCollection::length\<close> and \<open>get_with_index\<close> of web-sys read and take
  a \<open>u32\<close> (the DOM's \<open>unsigned long\<close>); the length of the list is converted
  to it, which wraps for lists of \<open>2 ^ 32\<close> or more entries.
\<close>

definition options_length :: "options_collection \<Rightarrow> u32" where
  "options_length opts = of_nat (length opts)"

definition get_with_index :: "options_collection \<Rightarrow> u32 \<Rightarrow> element option" where
  "get_with_index opts i = (if unat i < length opts then Some (opts ! unat i) else None)"

fun dyn_into_option :: "element \<Rightarrow> element + option_element" where
  "dyn_into_option (OptionElement oe) = Inr oe"
| "dyn_into_option (OtherElement t) = Inl (OtherElement t)"

fun is_option_element :: "element \<Rightarrow> bool" where
  "is_option_element (OptionElement _) = True"
| "is_option_element (OtherElement _) = False"

fun option_of :: "element \<Rightarrow> option_element" where
  "option_of (OptionElement oe) = oe"
| "option_of (OtherElement _) = \<lparr>opt_value = [], opt_selected = False\<rparr>"

text \<open>\<open>HTMLSelectElement.value\<close>: the value of the first selected option, else empty.\<close>

definition select_value :: "select_element \<Rightarrow> string" where
  "select_value sel =
     (case filter opt_selected (map option_of (filter is_option_element (sel_options sel))) of
        [] \<Rightarrow> [] | oe # _ \<Rightarrow> opt_value oe)"

subsection \<open>Rendered trees\<close>

type_synonym node_ref = nat
type_synonym callback_id = nat

datatype ('m, 'c) html =
    VText string
  | VTag string "(string \<times> ('m, 'c) attr) list" "('m, 'c) html list"
  | VComp string "(string \<times> ('m, 'c) attr) list" "('m, 'c) html list"
  | VList "('m, 'c) html list"
  | VForeign 'c
and ('m, 'c) attr =
    PStr string
  | PBool bool
  | PPalette palette
  | PStyle style
  | PSize size
  | PLayouts "item_layout list"
  | PWrap wrap
  | PDirection direction
  | POrientation orientation
  | PInputType input_type
  | PJustify justify_content
  | PIcon controller_icon
  | PPair string string
  | PNodeRef node_ref
  | POnInput "input_data \<Rightarrow> 'm"
  | POnChange "change_data \<Rightarrow> 'm result"
  | POnClick "mouse_event \<Rightarrow> 'm"
  | PHtml "('m, 'c) html"

text \<open>
  The callbacks of a tree, each with the name of the tag or component that carries it,
  in document order; an attribute holding a tree (\<open>options=html!{..}\<close>) is searched too.
\<close>

fun handlers_html :: "('m, 'c) html \<Rightarrow> (string \<times> ('m, 'c) attr) list"
and handlers_attr :: "string \<Rightarrow> ('m, 'c) attr \<Rightarrow> (string \<times> ('m, 'c) attr) list" where
  "handlers_html (VText _) = []"
| "handlers_html (VTag n as cs) =
     concat (map (\<lambda>a. handlers_attr n (snd a)) as) @ concat (map handlers_html cs)"
| "handlers_html (VComp n as cs) =
     concat (map (\<lambda>a. handlers_attr n (snd a)) as) @ concat (map handlers_html cs)"
| "handlers_html (VList cs) = concat (map handlers_html cs)"
| "handlers_html (VForeign _) = []"
| "handlers_attr n (POnInput f) = [(n, POnInput f)]"
| "handlers_attr n (POnChange f) = [(n, POnChange f)]"
| "handlers_attr n (POnClick f) = [(n, POnClick f)]"
| "handlers_attr n (PHtml h) = handlers_html h"
| "handlers_attr n _ = []"

text \<open>The text a tree displays, in document order (attribute values are not displayed).\<close>

fun html_texts :: "('m, 'c) html \<Rightarrow> string list" where
  "html_texts (VText t) = [t]"
| "html_texts (VTag _ _ cs) = concat (map html_texts cs)"
| "html_texts (VComp _ _ cs) = concat (map html_texts cs)"
| "html_texts (VList cs) = concat (map html_texts cs)"
| "html_texts (VForeign _) = []"

text \<open>The parent's nodes a tree renders, in document order.\<close>

fun html_foreign :: "('m, 'c) html \<Rightarrow> 'c list" where
  "html_foreign (VText _) = []"
| "html_foreign (VTag _ _ cs) = concat (map html_foreign cs)"
| "html_foreign (VComp _ _ cs) = concat (map html_foreign cs)"
| "html_foreign (VList cs) = concat (map html_foreign cs)"
| "html_foreign (VForeign c) = [c]"

text \<open>
  The platform's side: yew builds \<open>ChangeData::Select\<close> for a change of a select
  element (a \<open>FormSelect\<close> forwards the one of its inner \<open>select\<close>), whose
  options collection holds option elements only and has fewer than \<open>2 ^ 32\<close>
  entries (its length is an \<open>unsigned long\<close>), and \<open>Value\<close> or \<open>Files\<close> for
  other elements.
\<close>

definition select_host :: "string \<Rightarrow> bool" where
  "select_host n \<longleftrightarrow> n = ''FormSelect'' \<or> n = ''select''"

fun dom_delivers :: "string \<Rightarrow> event \<Rightarrow> bool" where
  "dom_delivers n (EvChange (Change_Select sel)) \<longleftrightarrow>
     select_host n \<and> list_all is_option_element (sel_options sel) \<and>
     length (sel_options sel) < 2 ^ 32"
| "dom_delivers n (EvChange _) \<longleftrightarrow> \<not> select_host n"
| "dom_delivers n (EvInput _) \<longleftrightarrow> True"
| "dom_delivers n (EvClick _) \<longleftrightarrow> True"

text \<open>A callback runs on an event of its own kind; \<open>None\<close>: it does not listen to it.\<close>

fun fire :: "('m, 'c) attr \<Rightarrow> event \<Rightarrow> 'm result option" where
  "fire (POnInput f) (EvInput d) = Some (Inr (f d))"
| "fire (POnChange f) (EvChange d) = Some (f d)"
| "fire (POnClick f) (EvClick e) = Some (Inr (f e))"
| "fire _ _ = None"

end
