(* ===== verification/Yew_Component.thy ===== *)
theory Yew_Component
  imports Yew_Html
begin

text \<open>
  The update/render contract of section 4.1 of the spec, which every component of the
  library implements through yew's \<open>Component\<close> trait: \<open>create\<close> builds the
  state from the properties, \<open>mounted\<close> runs once after the first render,
  \<open>update\<close> folds a message, \<open>change\<close> adopts new properties, and each of the
  last three says whether to render again (\<open>ShouldRender\<close>). The operations act on
  an outside \<open>world\<close>: the style table of \<open>create_style\<close> and the log of the
  callbacks emitted to the parent. The scheduler \<open>run\<close> applies lifecycle events in
  order and renders after every step that asks for it; a panic in a step or in a render
  aborts the run. \<open>ui_reachable\<close> is the set of states a user reaches: messages
  only come from the callbacks of the current rendering, fired by events the platform
  delivers to their element, and the parent may pass new properties at any time.
  \<open>ui_steps\<close> are the paths from one state to another that user events alone drive,
  the relation the liveness properties are stated with.
\<close>

record world =
  styles :: style_table
  emitted :: "(callback_id \<times> event) list"

record ('p, 's, 'm, 'c) component =
  comp_create :: "'p \<Rightarrow> 's"
  comp_mounted :: "'s \<Rightarrow> world \<Rightarrow> 's \<times> bool \<times> world"
  comp_update :: "'s \<Rightarrow> 'm \<Rightarrow> world \<Rightarrow> ('s \<times> bool \<times> world) result"
  comp_change :: "'s \<Rightarrow> 'p \<Rightarrow> world \<Rightarrow> 's \<times> bool \<times> world"
  comp_view :: "'s \<Rightarrow> ('m, 'c) html result"

datatype ('p, 'm) lifecycle = Mount | Message 'm | NewProps 'p

fun lifecycle_step ::
  "('p, 's, 'm, 'c) component \<Rightarrow> 's \<times> world \<Rightarrow> ('p, 'm) lifecycle \<Rightarrow> ('s \<times> bool \<times> world) result"
where
  "lifecycle_step c (s, w) Mount = Inr (comp_mounted c s w)"
| "lifecycle_step c (s, w) (Message m) = comp_update c s m w"
| "lifecycle_step c (s, w) (NewProps p) = Inr (comp_change c s p w)"

fun render :: "('p, 's, 'm, 'c) component \<Rightarrow> 's \<times> bool \<times> world \<Rightarrow> ('s \<times> world) result" where
  "render c (s, r, w) = (if r then bind_res (comp_view c s) (\<lambda>_. Inr (s, w)) else Inr (s, w))"

fun run ::
  "('p, 's, 'm, 'c) component \<Rightarrow> 's \<times> world \<Rightarrow> ('p, 'm) lifecycle list \<Rightarrow> ('s \<times> world) result"
where
  "run c sw [] = Inr sw"
| "run c sw (e # es) =
     bind_res (lifecycle_step c sw e) (\<lambda>x. bind_res (render c x) (\<lambda>sw'. run c sw' es))"

text \<open>Mounting: \<open>create\<close>, the first render, then \<open>mounted\<close> and its render.\<close>

definition mount :: "('p, 's, 'm, 'c) component \<Rightarrow> 'p \<Rightarrow> world \<Rightarrow> ('s \<times> world) result" where
  "mount c p w =
     (let s = comp_create c p in bind_res (comp_view c s) (\<lambda>_. run c (s, w) [Mount]))"

subsection \<open>Messages a user can cause, and the reachable states\<close>

definition ui_message :: "('p, 's, 'm, 'c) component \<Rightarrow> 's \<Rightarrow> 'm \<Rightarrow> bool" where
  "ui_message c s m \<longleftrightarrow>
     (\<exists>h n a ev. comp_view c s = Inr h \<and> (n, a) \<in> set (handlers_html h) \<and>
        dom_delivers n ev \<and> fire a ev = Some (Inr m))"

inductive ui_reachable :: "('p, 's, 'm, 'c) component \<Rightarrow> 's \<times> world \<Rightarrow> bool" for c where
  ui_create: "ui_reachable c (comp_create c p, w)"
| ui_mount: "ui_reachable c (s, w) \<Longrightarrow> comp_mounted c s w = (s', r, w') \<Longrightarrow> ui_reachable c (s', w')"
| ui_event: "ui_reachable c (s, w) \<Longrightarrow> ui_message c s m \<Longrightarrow>
    comp_update c s m w = Inr (s', r, w') \<Longrightarrow> ui_reachable c (s', w')"
| ui_props: "ui_reachable c (s, w) \<Longrightarrow> comp_change c s p w = (s', r, w') \<Longrightarrow>
    ui_reachable c (s', w')"

text \<open>
  The paths a user drives by events alone: each step fires a rendered callback on a
  delivered event and applies the message it yields.
\<close>

inductive ui_steps :: "('p, 's, 'm, 'c) component \<Rightarrow> 's \<times> world \<Rightarrow> 's \<times> world \<Rightarrow> bool" for c where
  ui_refl: "ui_steps c sw sw"
| ui_step: "ui_message c s m \<Longrightarrow> comp_update c s m w = Inr (s', r, w') \<Longrightarrow>
    ui_steps c (s', w') sw'' \<Longrightarrow> ui_steps c (s, w) sw''"

subsection \<open>Generic rules\<close>

lemma ui_messageI:
  "comp_view c s = Inr h \<Longrightarrow> (n, a) \<in> set (handlers_html h) \<Longrightarrow> dom_delivers n ev \<Longrightarrow>
   fire a ev = Some (Inr m) \<Longrightarrow> ui_message c s m"
  unfolding ui_message_def by blast

text \<open>
  An invariant of the state that \<open>create\<close> establishes and every operation keeps
  (\<open>update\<close> only for the messages the rendered callbacks produce) holds in every
  reachable state: rule induction, one case per kind of step.
\<close>

lemma ui_reachable_inv:
  assumes reach: "ui_reachable c sw"
    and create: "\<And>p w. I (comp_create c p, w)"
    and mounted: "\<And>s w s' r w'. I (s, w) \<Longrightarrow> comp_mounted c s w = (s', r, w') \<Longrightarrow> I (s', w')"
    and update: "\<And>s w m s' r w'. I (s, w) \<Longrightarrow> ui_message c s m \<Longrightarrow>
                   comp_update c s m w = Inr (s', r, w') \<Longrightarrow> I (s', w')"
    and change: "\<And>s w p s' r w'. I (s, w) \<Longrightarrow> comp_change c s p w = (s', r, w') \<Longrightarrow> I (s', w')"
  shows "I sw"
  using reach
proof (induction rule: ui_reachable.induct)
  case (ui_create p w)
  show ?case by (rule create)
next
  case (ui_mount s w s' r w')
  then show ?case by (blast intro: mounted)
next
  case (ui_event s w m s' r w')
  then show ?case by (blast intro: update)
next
  case (ui_props s w p s' r w')
  then show ?case by (blast intro: change)
qed

text \<open>The same for the scheduler: a step invariant holds after every successful run.\<close>

lemma run_inv:
  assumes step: "\<And>sw e s r w. I sw \<Longrightarrow> lifecycle_step c sw e = Inr (s, r, w) \<Longrightarrow> I (s, w)"
  shows "I sw \<Longrightarrow> run c sw es = Inr sw' \<Longrightarrow> I sw'"
proof (induction es arbitrary: sw)
  case Nil
  then show ?case by simp
next
  case (Cons e es)
  from Cons.prems(2) obtain s r w sw1 where
    st: "lifecycle_step c sw e = Inr (s, r, w)" and
    rd: "render c (s, r, w) = Inr sw1" and rest: "run c sw1 es = Inr sw'"
    by (auto simp: bind_res_eq_Inr)
  from rd have "sw1 = (s, w)"
    by (auto simp: bind_res_eq_Inr split: if_splits)
  with step [OF Cons.prems(1) st] rest show ?case by (blast intro: Cons.IH)
qed

lemma run_append:
  "run c sw (es @ fs) = bind_res (run c sw es) (\<lambda>sw'. run c sw' fs)"
proof (induction es arbitrary: sw)
  case Nil
  then show ?case by simp
next
  case (Cons e es)
  then show ?case
    by (simp add: bind_res_def split: sum.split)
qed

text \<open>User paths compose, and they stay among the reachable states.\<close>

lemma ui_steps_trans: "ui_steps c sw sw' \<Longrightarrow> ui_steps c sw' sw'' \<Longrightarrow> ui_steps c sw sw''"
  by (induction rule: ui_steps.induct) (auto intro: ui_step)

lemma ui_steps_reachable: "ui_steps c sw sw' \<Longrightarrow> ui_reachable c sw \<Longrightarrow> ui_reachable c sw'"
  by (induction rule: ui_steps.induct) (auto intro: ui_event)

lemma ui_steps_one:
  "ui_message c s m \<Longrightarrow> comp_update c s m w = Inr (s', r, w') \<Longrightarrow> ui_steps c (s, w) (s', w')"
  by (blast intro: ui_step ui_refl)

end
