(* ===== verification/Debug_Parse.thy ===== *)
theory Debug_Parse
  imports Yew_Prelude
begin

text \<open>
  Reading back what Rust's Debug formatting prints (\<open>debug_string\<close>,
  \<open>debug_pretty_vec\<close> of \<open>Yew_Prelude\<close>). The parsers are reference definitions, the
  inverse a reader of the page applies to its \<open>Value:\<close> lines: \<open>parse_str_body\<close> reads
  the escaped contents of a quoted string up to its closing quote, \<open>parse_items\<close> the
  lines of a pretty-printed vector, and \<open>parse_pretty_vec\<close> the whole \<open>{:#?}\<close> output.
  The round trips show that the printed text determines the printed values.
\<close>

definition hex_value_digit :: "char \<Rightarrow> nat" where
  "hex_value_digit d = (if of_char d < (58::nat) then of_char d - 48 else of_char d - 87)"

definition hex_value :: "string \<Rightarrow> nat" where
  "hex_value ds = foldl (\<lambda>n d. 16 * n + hex_value_digit d) 0 ds"

function parse_str_body :: "string \<Rightarrow> (string \<times> string) option" where
  "parse_str_body [] = None"
| "parse_str_body (c # cs) =
     (if c = CHR 0x22 then Some ([], cs)
      else if c \<noteq> CHR 0x5C then map_option (\<lambda>(x, r). (c # x, r)) (parse_str_body cs)
      else case cs of
        [] \<Rightarrow> None
      | d # ds \<Rightarrow>
          if d = CHR ''t'' then map_option (\<lambda>(x, r). (CHR 0x09 # x, r)) (parse_str_body ds)
          else if d = CHR ''r'' then map_option (\<lambda>(x, r). (CHR 0x0D # x, r)) (parse_str_body ds)
          else if d = CHR ''n'' then map_option (\<lambda>(x, r). (CHR 0x0A # x, r)) (parse_str_body ds)
          else if d = CHR ''0'' then map_option (\<lambda>(x, r). (CHR 0x00 # x, r)) (parse_str_body ds)
          else if d = CHR 0x5C \<or> d = CHR 0x22 then map_option (\<lambda>(x, r). (d # x, r)) (parse_str_body ds)
          else if d = CHR ''u'' \<and> take 1 ds = [CHR 0x7B] \<and>
                  dropWhile (\<lambda>e. e \<noteq> CHR 0x7D) (drop 1 ds) \<noteq> []
          then map_option
                 (\<lambda>(x, r). (char_of (hex_value (takeWhile (\<lambda>e. e \<noteq> CHR 0x7D) (drop 1 ds))) # x, r))
                 (parse_str_body (tl (dropWhile (\<lambda>e. e \<noteq> CHR 0x7D) (drop 1 ds))))
          else None)"
  by pat_completeness auto
termination
proof (relation "measure length")
  fix c cs d ds
  have "length (dropWhile (\<lambda>e. e \<noteq> CHR 0x7D) (drop 1 ds)) \<le> length (drop 1 ds)"
    by (rule length_dropWhile_le)
  then have "length (dropWhile (\<lambda>e. e \<noteq> CHR 0x7D) (drop 1 ds)) \<le> length ds" by simp
  then show "(tl (dropWhile (\<lambda>e. e \<noteq> CHR 0x7D) (drop 1 ds)), c # cs) \<in> measure length"
    if "cs = d # ds" for c :: char
    using that by simp
qed simp_all

text \<open>The lines of a text, split at each newline.\<close>

fun split_lines :: "string \<Rightarrow> string list" where
  "split_lines [] = [[]]"
| "split_lines (c # cs) =
     (if c = CHR 0x0A then [] # split_lines cs
      else (c # hd (split_lines cs)) # tl (split_lines cs))"

text \<open>One line \<open>    "..",\<close> of a pretty-printed vector of strings.\<close>

definition parse_line :: "string \<Rightarrow> string option" where
  "parse_line l =
     (if take 5 l = ''    '' @ [CHR 0x22] then
        (case parse_str_body (drop 5 l) of
           None \<Rightarrow> None
         | Some (x, r) \<Rightarrow> if r = '','' then Some x else None)
      else None)"

definition parse_pretty_vec :: "string \<Rightarrow> string list option" where
  "parse_pretty_vec t =
     (if t = ''[]'' then Some []
      else case split_lines t of
        [] \<Rightarrow> None
      | l # ls \<Rightarrow>
          if l = ''['' \<and> ls \<noteq> [] \<and> last ls = '']'' then those (map parse_line (butlast ls)) else None)"

subsection \<open>Hexadecimal digits\<close>

lemma hex_value_digit_hex_digit: "n < 16 \<Longrightarrow> hex_value_digit (hex_digit n) = n"
proof -
  assume "n < 16"
  then have "n \<in> set [0..<16]" by simp
  then show ?thesis by (auto simp: upt_rec hex_digit_def hex_value_digit_def)
qed

lemma hex_digit_set: "n < 16 \<Longrightarrow> hex_digit n \<in> set ''0123456789abcdef''"
proof -
  assume "n < 16"
  then have "n < length ''0123456789abcdef''" by simp
  then show ?thesis unfolding hex_digit_def by (rule nth_mem)
qed

lemma hex_string_set: "set (hex_string n) \<subseteq> set ''0123456789abcdef''"
proof (induction n rule: hex_string.induct)
  case (1 n)
  show ?case
  proof (cases "n < 16")
    case True
    with hex_digit_set [OF True] show ?thesis by (simp add: hex_string_lt)
  next
    case False
    then have "hex_string n = hex_string (n div 16) @ [hex_digit (n mod 16)]" by (rule hex_string_ge)
    with "1.IH" [OF False] hex_digit_set [of "n mod 16"] show ?thesis by simp
  qed
qed

lemma hex_value_snoc: "hex_value (xs @ [d]) = 16 * hex_value xs + hex_value_digit d"
  by (simp add: hex_value_def)

lemma hex_value_hex_string: "hex_value (hex_string n) = n"
proof (induction n rule: hex_string.induct)
  case (1 n)
  show ?case
  proof (cases "n < 16")
    case True
    then show ?thesis by (simp add: hex_string_lt hex_value_def hex_value_digit_hex_digit)
  next
    case False
    then have "hex_string n = hex_string (n div 16) @ [hex_digit (n mod 16)]" by (rule hex_string_ge)
    with "1.IH" [OF False] show ?thesis by (simp add: hex_value_snoc hex_value_digit_hex_digit)
  qed
qed

lemma hex_string_brace:
  "takeWhile (\<lambda>e. e \<noteq> CHR 0x7D) (hex_string n @ CHR 0x7D # t) = hex_string n"
  "dropWhile (\<lambda>e. e \<noteq> CHR 0x7D) (hex_string n @ CHR 0x7D # t) = CHR 0x7D # t"
proof -
  have "\<forall>e \<in> set (hex_string n). e \<noteq> CHR 0x7D" using hex_string_set [of n] by auto
  then show "takeWhile (\<lambda>e. e \<noteq> CHR 0x7D) (hex_string n @ CHR 0x7D # t) = hex_string n"
    and "dropWhile (\<lambda>e. e \<noteq> CHR 0x7D) (hex_string n @ CHR 0x7D # t) = CHR 0x7D # t"
    by (simp_all add: takeWhile_append2 dropWhile_append2)
qed

lemma hex_string_no_newline: "CHR 0x0A \<notin> set (hex_string n)"
  using hex_string_set [of n] by auto

subsection \<open>Round trips\<close>

text \<open>The escape of one character reads back as that character.\<close>

lemma parse_str_body_escape_debug:
  "parse_str_body (escape_debug c @ t) = map_option (\<lambda>(x, r). (c # x, r)) (parse_str_body t)"
proof -
  consider "c = CHR 0x09" | "c = CHR 0x0D" | "c = CHR 0x0A" | "c = CHR 0x5C" | "c = CHR 0x22"
    | "c = CHR 0x00"
    | (ctl) "c \<notin> {CHR 0x09, CHR 0x0D, CHR 0x0A, CHR 0x5C, CHR 0x22, CHR 0x00}"
        "of_char c < (32::nat) \<or> of_char c = (127::nat)"
    | (plain) "c \<notin> {CHR 0x09, CHR 0x0D, CHR 0x0A, CHR 0x5C, CHR 0x22, CHR 0x00}"
        "\<not> (of_char c < (32::nat) \<or> of_char c = (127::nat))"
    by blast
  then show ?thesis
  proof cases
    case ctl
    then show ?thesis by (simp add: escape_debug_def hex_string_brace hex_value_hex_string)
  next
    case plain
    then show ?thesis by (simp add: escape_debug_def)
  qed (simp_all add: escape_debug_def)
qed

lemma parse_str_body_escaped:
  "parse_str_body (concat (map escape_debug s) @ CHR 0x22 # r) = Some (s, r)"
  by (induction s) (simp_all add: parse_str_body_escape_debug)

lemma escape_debug_no_newline: "CHR 0x0A \<notin> set (escape_debug c)"
  using hex_string_no_newline [of "of_char c"]
  by (auto simp: escape_debug_def)

lemma split_lines_single: "CHR 0x0A \<notin> set a \<Longrightarrow> split_lines a = [a]"
  by (induction a) auto

lemma split_lines_append: "CHR 0x0A \<notin> set a \<Longrightarrow> split_lines (a @ CHR 0x0A # b) = a # split_lines b"
  by (induction a) auto

lemma debug_string_no_newline: "CHR 0x0A \<notin> set (debug_string x)"
  using escape_debug_no_newline by (auto simp: debug_string_def)

lemma split_lines_items:
  "split_lines (concat (map (\<lambda>x. ''    '' @ debug_string x @ '','' @ [CHR 0x0A]) xs) @ '']'') =
   map (\<lambda>x. ''    '' @ debug_string x @ '','') xs @ ['']'']"
proof (induction xs)
  case Nil
  then show ?case by simp
next
  case (Cons x xs)
  have "CHR 0x0A \<notin> set (''    '' @ debug_string x @ '','')"
    using debug_string_no_newline [of x] by simp
  from split_lines_append [OF this] Cons.IH show ?case by simp
qed

lemma parse_line_debug: "parse_line (''    '' @ debug_string x @ '','') = Some x"
  by (simp add: parse_line_def debug_string_def parse_str_body_escaped)

lemma those_map_Some: "\<forall>x \<in> set xs. f x = Some x \<Longrightarrow> those (map f xs) = Some xs"
  by (induction xs) simp_all

text \<open>The \<open>{:#?}\<close> output of a vector of strings reads back as that vector.\<close>

lemma parse_pretty_vec_debug: "parse_pretty_vec (debug_pretty_vec xs) = Some xs"
proof (cases "xs = []")
  case True
  then show ?thesis by (simp add: parse_pretty_vec_def debug_pretty_vec_def)
next
  case False
  let ?L = "\<lambda>x. ''    '' @ debug_string x @ '',''"
  let ?R = "concat (map (\<lambda>x. ''    '' @ debug_string x @ '','' @ [CHR 0x0A]) xs) @ '']''"
  have t: "debug_pretty_vec xs = CHR ''['' # CHR 0x0A # ?R"
    using False by (simp add: debug_pretty_vec_def)
  have "split_lines (CHR ''['' # CHR 0x0A # r) = ''['' # split_lines r" for r by simp
  then have sl: "split_lines (debug_pretty_vec xs) = ''['' # map ?L xs @ ['']'']"
    by (simp only: t split_lines_items)
  have ne: "debug_pretty_vec xs \<noteq> ''[]''" using t by simp
  have "those (map (\<lambda>x. parse_line (?L x)) xs) = Some xs"
    by (rule those_map_Some) (intro ballI parse_line_debug)
  then have th: "those (map parse_line (map ?L xs)) = Some xs" by (simp only: map_map comp_def)
  have "parse_pretty_vec (debug_pretty_vec xs) = those (map parse_line (map ?L xs))"
    unfolding parse_pretty_vec_def sl using ne by (simp only: if_False list.case butlast_snoc) simp
  with th show ?thesis by simp
qed

lemma debug_pretty_vec_inj: "debug_pretty_vec xs = debug_pretty_vec ys \<longleftrightarrow> xs = ys"
  by (metis option.inject parse_pretty_vec_debug)

end
