(* ===== verification/Form_Page.thy ===== *)
theory Form_Page
  imports Yew_Component Debug_Parse
begin

text \<open>
  The demo page \<open>FormPage\<close> of \<open>src/crate/src/page/form_pages.rs\<close>. Its state is
  the vector \<open>value\<close> of input values (field \<open>value_vec\<close>) (50 blank slots at creation) and the result
  \<open>multiple_values\<close> of the multi-select; the link is the framework's and is not
  state. \<open>form_page_update\<close> writes one slot (\<open>Input\<close>, \<open>Select\<close>) or the
  multi-select result, panicking on an index out of range, and always asks for a render;
  \<open>form_page_change\<close> never does. The view reads slots 0 to 3 and binds five
  callbacks: three text inputs (\<open>input_callback\<close> at slots 0, 1, 2), a select
  (\<open>select_callback\<close>, slot 3) and a multi-select (\<open>multi_select_callback\<close>,
  whose loop over the options is \<open>collect_selected\<close>).
\<close>

record form_page =
  value_vec :: "string list"
  multiple_values :: "string list"

datatype msg = Input string nat | Select string nat | MultipleSelect "string list"

definition form_page_create :: "unit \<Rightarrow> form_page" where
  "form_page_create _ = \<lparr>value_vec = replicate 50 [], multiple_values = []\<rparr>"

fun form_page_update :: "form_page \<Rightarrow> msg \<Rightarrow> (form_page \<times> bool) result" where
  "form_page_update s (Input v index) =
     bind_res (vec_set (value_vec s) index v) (\<lambda>vs. Inr (s\<lparr>value_vec := vs\<rparr>, True))"
| "form_page_update s (Select v index) =
     bind_res (vec_set (value_vec s) index v) (\<lambda>vs. Inr (s\<lparr>value_vec := vs\<rparr>, True))"
| "form_page_update s (MultipleSelect values) = Inr (s\<lparr>multiple_values := values\<rparr>, True)"

definition form_page_change :: "form_page \<Rightarrow> unit \<Rightarrow> form_page \<times> bool" where
  "form_page_change s _ = (s, False)"

subsection \<open>Callback adapters\<close>

text \<open>\<open>|e: InputData| Msg::Input(e.value, i)\<close>, bound with \<open>i\<close> = 0, 1, 2.\<close>

definition input_callback :: "nat \<Rightarrow> input_data \<Rightarrow> msg" where
  "input_callback i e = Input (input_value e) i"

fun select_callback :: "change_data \<Rightarrow> msg result" where
  "select_callback (Change_Select element) = Inr (Select (select_value element) 3)"
| "select_callback _ = Inl Unreachable"

text \<open>
  The loop \<open>for i in 0..options.length()\<close> of the multi-select callback, from the
  \<open>u32\<close> index \<open>i\<close> with the values pushed so far: each option is fetched
  (\<open>unwrap\<close> of \<open>get_with_index\<close>), cast (\<open>unwrap\<close> of \<open>dyn_into\<close>) and
  pushed when selected. It terminates because \<open>unat (options_length options) - unat i\<close>
  decreases: below the bound, \<open>i + 1\<close> does not wrap.
\<close>

function collect_selected :: "options_collection \<Rightarrow> u32 \<Rightarrow> string list \<Rightarrow> string list result" where
  "collect_selected options i values =
     (if i < options_length options then
        bind_res (unwrap_opt (get_with_index options i)) (\<lambda>el.
        bind_res (unwrap_res (dyn_into_option el)) (\<lambda>option.
          collect_selected options (i + 1)
            (if opt_selected option then values @ [opt_value option] else values)))
      else Inr values)"
  by pat_completeness auto
termination
  by (relation "measure (\<lambda>(options, i, values). unat (options_length options) - unat i)")
     (simp_all add: unat_range_variant)

declare collect_selected.simps [simp del]

fun multi_select_callback :: "change_data \<Rightarrow> msg result" where
  "multi_select_callback (Change_Select element) =
     bind_res (collect_selected (select_options element) 0 []) (\<lambda>values. Inr (MultipleSelect values))"
| "multi_select_callback _ = Inl Unreachable"

subsection \<open>View\<close>

text \<open>
  \<open>get_form_inputs\<close>: three text inputs in a wrapping row, each showing its slot
  (\<open>value[0]\<close>, \<open>value[1]\<close>, \<open>value[2]\<close>, read in this order, each read panicking
  when out of range) and bound to \<open>input_callback\<close> at its slot.
\<close>

definition get_form_inputs :: "form_page \<Rightarrow> (msg, unit) html result" where
  "get_form_inputs form_page =
     bind_res (vec_index (value_vec form_page) 0) (\<lambda>v0.
     bind_res (vec_index (value_vec form_page) 1) (\<lambda>v1.
     bind_res (vec_index (value_vec form_page) 2) (\<lambda>v2.
     Inr (VComp ''Container'' [(''wrap'', PWrap Wrap), (''direction'', PDirection Row)]
       [VComp ''Item'' [(''layouts'', PLayouts [ItL 4, ItM 6, ItXs 12])]
          [VComp ''FormGroup'' [(''orientation'', POrientation Horizontal)]
             [VComp ''FormLabel'' [(''text'', PStr ''standard input'')] [],
              VComp ''FormInput''
                [(''input_type'', PInputType Text), (''value'', PStr v0),
                 (''input_style'', PPalette Standard), (''input_size'', PSize Medium),
                 (''id'', PStr ''form-input-test''), (''oninput_signal'', POnInput (input_callback 0)),
                 (''placeholder'', PStr ''test''), (''underline'', PBool False)] [],
              VTag ''div'' [] [VText (''Value: '' @ v0)]]],
        VComp ''Item'' [(''layouts'', PLayouts [ItL 4, ItM 6, ItXs 12])]
          [VComp ''FormGroup'' [(''orientation'', POrientation Horizontal)]
             [VComp ''FormLabel'' [(''text'', PStr ''underline input'')] [],
              VComp ''FormInput''
                [(''input_type'', PInputType Text), (''value'', PStr v1),
                 (''oninput_signal'', POnInput (input_callback 1)),
                 (''input_style'', PPalette Standard), (''id'', PStr ''form-input-test''),
                 (''placeholder'', PStr ''test''), (''underline'', PBool True)] [],
              VTag ''div'' [] [VText (''Value: '' @ v1)]]],
        VComp ''Item'' [(''layouts'', PLayouts [ItL 4, ItM 6, ItXs 12])]
          [VComp ''FormGroup'' [(''orientation'', POrientation Horizontal)]
             [VComp ''FormLabel'' [(''text'', PStr ''Success input type'')] [],
              VComp ''FormInput''
                [(''input_type'', PInputType Text), (''value'', PStr v2),
                 (''input_style'', PPalette Success), (''oninput_signal'', POnInput (input_callback 2)),
                 (''input_size'', PSize Medium), (''id'', PStr ''form-input-test''),
                 (''placeholder'', PStr ''test''), (''underline'', PBool False)] [],
              VTag ''div'' [] [VText (''Value: '' @ v2)]]]]))))"

text \<open>The four options both selects offer, after their disabled prompt.\<close>

definition library_options :: "string \<Rightarrow> (msg, unit) html" where
  "library_options prompt =
     VList [VTag ''option'' [(''value'', PStr []), (''disabled'', PBool True)] [VText prompt],
            VTag ''option'' [(''value'', PStr ''yew'')] [VText ''Yew''],
            VTag ''option'' [(''value'', PStr ''yew_styles'')] [VText ''Yew Styles''],
            VTag ''option'' [(''value'', PStr ''yew_prism'')] [VText ''Yew prism'']]"

text \<open>
  \<open>get_select_form\<close>: a select bound to slot 3 (showing \<open>value[3]\<close>) and a
  multi-select showing \<open>{:#?}\<close> of \<open>multiple_values\<close>.
\<close>

definition get_select_form :: "form_page \<Rightarrow> (msg, unit) html result" where
  "get_select_form form_page =
     bind_res (vec_index (value_vec form_page) 3) (\<lambda>v3.
     Inr (VComp ''Container'' [(''wrap'', PWrap Wrap), (''direction'', PDirection Row)]
       [VComp ''Item'' [(''layouts'', PLayouts [ItM 6, ItXs 12])]
          [VComp ''FormGroup'' []
             [VComp ''FormSelect''
                [(''select_size'', PSize Medium), (''on_change_signal'', POnChange select_callback),
                 (''options'', PHtml (library_options ''Select library''))] [],
              VTag ''div'' [] [VText (''Value: '' @ v3)]]],
        VComp ''Item'' [(''layouts'', PLayouts [ItM 6, ItXs 12])]
          [VComp ''FormGroup'' []
             [VComp ''FormSelect''
                [(''select_size'', PSize Medium), (''multiple'', PBool True),
                 (''on_change_signal'', POnChange multi_select_callback),
                 (''options'', PHtml (library_options ''Select multiple library''))] [],
              VTag ''div'' []
                [VText (''Value: '' @ debug_pretty_vec (multiple_values form_page))]]]]))"

definition form_page_view :: "form_page \<Rightarrow> (msg, unit) html result" where
  "form_page_view s =
     bind_res (get_form_inputs s) (\<lambda>inputs.
     bind_res (get_select_form s) (\<lambda>selects.
     Inr (VList
       [VComp ''Item'' [(''layouts'', PLayouts [ItXs 12])] [VTag ''h1'' [] [VText ''Form Component'']],
        VComp ''Item'' [(''layouts'', PLayouts [ItXs 12])] [VTag ''h2'' [] [VText ''Form input types'']],
        inputs, selects])))"

text \<open>
  The page as a component: no properties, the default \<open>mounted\<close> (no render), and
  no effect on the world.
\<close>

definition form_page_component :: "(unit, form_page, msg, unit) component" where
  "form_page_component =
     \<lparr>comp_create = form_page_create,
      comp_mounted = (\<lambda>s w. (s, False, w)),
      comp_update = (\<lambda>s m w. bind_res (form_page_update s m) (\<lambda>(s', r). Inr (s', r, w))),
      comp_change = (\<lambda>s p w. (fst (form_page_change s p), snd (form_page_change s p), w)),
      comp_view = form_page_view\<rparr>"

subsection \<open>Reference definitions\<close>

text \<open>
  What the multi-select loop is meant to compute: the values of the selected options, in
  list order.
\<close>

definition selected_values :: "options_collection \<Rightarrow> string list" where
  "selected_values opts = map opt_value (filter opt_selected (map option_of opts))"

text \<open>
  The abstract store of section 8 of the spec: after a sequence of writes
  \<open>(value, index)\<close>, a slot holds the value of the last write to it, or its old value.
\<close>

definition last_write :: "(string \<times> nat) list \<Rightarrow> nat \<Rightarrow> string \<Rightarrow> string" where
  "last_write ws j d = (case filter (\<lambda>w. snd w = j) ws of [] \<Rightarrow> d | xs \<Rightarrow> fst (last xs))"

text \<open>
  The states of the page a user can reach: 50 slots of which only the four the view binds
  (0 to 3) may be non-blank, and a multi-select result shorter than \<open>2 ^ 32\<close> (it is
  drawn from one options collection).
\<close>

definition form_page_shape :: "form_page \<Rightarrow> bool" where
  "form_page_shape s \<longleftrightarrow>
     length (value_vec s) = 50 \<and> list_all (\<lambda>v. v = []) (drop 4 (value_vec s)) \<and>
     length (multiple_values s) < 2 ^ 32"

text \<open>The callbacks of the page's view, with the component that carries each.\<close>

definition form_page_callbacks :: "(string \<times> (msg, unit) attr) list" where
  "form_page_callbacks =
    [(''FormInput'', POnInput (input_callback 0)), (''FormInput'', POnInput (input_callback 1)),
     (''FormInput'', POnInput (input_callback 2)), (''FormSelect'', POnChange select_callback),
     (''FormSelect'', POnChange multi_select_callback)]"

subsection \<open>Update, loop and view lemmas\<close>

lemma form_page_update_slot_eq [model_simps]:
  "form_page_update s (Input v i) =
     (if i < length (value_vec s) then Inr (s\<lparr>value_vec := (value_vec s)[i := v]\<rparr>, True)
      else Inl (IndexOutOfBounds i (length (value_vec s))))"
  "form_page_update s (Select v i) =
     (if i < length (value_vec s) then Inr (s\<lparr>value_vec := (value_vec s)[i := v]\<rparr>, True)
      else Inl (IndexOutOfBounds i (length (value_vec s))))"
  by (simp_all add: vec_set_def)

lemma form_page_update_length:
  "form_page_update s m = Inr (s', r) \<Longrightarrow> length (value_vec s') = length (value_vec s)"
  by (cases m) (auto simp: vec_set_def split: if_splits)

lemma form_page_component_simps [model_simps]:
  "comp_create form_page_component = form_page_create"
  "comp_mounted form_page_component s w = (s, False, w)"
  "comp_update form_page_component s m w = bind_res (form_page_update s m) (\<lambda>(s', r). Inr (s', r, w))"
  "comp_change form_page_component s p w = (s, False, w)"
  "comp_view form_page_component = form_page_view"
  by (simp_all add: form_page_component_def form_page_change_def)

lemma options_length_unat [simp]: "unat (options_length opts) = length opts mod 2 ^ 32"
  by (simp add: options_length_def unat_of_nat)

lemma get_with_index_below:
  "i < options_length opts \<Longrightarrow> get_with_index opts i = Some (opts ! unat i)"
  by (simp add: get_with_index_def word_less_nat_alt)

lemma options_length_le: "unat (options_length opts) \<le> length opts"
  by simp

text \<open>
  The loop from index \<open>i\<close> reads the entries from \<open>unat i\<close> up to the \<open>u32\<close>
  bound \<open>unat (options_length opts)\<close>.
\<close>

lemma collect_selected_drop:
  "collect_selected opts i acc =
     (if list_all is_option_element (drop (unat i) (take (unat (options_length opts)) opts))
      then Inr (acc @ selected_values (drop (unat i) (take (unat (options_length opts)) opts)))
      else Inl UnwrapErr)"
proof (induction opts i acc rule: collect_selected.induct)
  case (1 opts i acc)
  show ?case
  proof (cases "i < options_length opts")
    case False
    then have "unat (options_length opts) \<le> unat i" by (simp add: word_less_nat_alt)
    with False show ?thesis
      by (simp add: collect_selected.simps [of opts i acc] selected_values_def del: options_length_unat)
  next
    case True
    then have lt: "unat i < unat (options_length opts)" by (simp add: word_less_nat_alt)
    then have lt': "unat i < length (take (unat (options_length opts)) opts)"
      using options_length_le [of opts] by (simp del: options_length_unat)
    then have drop: "drop (unat i) (take (unat (options_length opts)) opts) =
        opts ! unat i # drop (Suc (unat i)) (take (unat (options_length opts)) opts)"
      using Cons_nth_drop_Suc [OF lt', symmetric] lt by (simp del: options_length_unat)
    have suc: "unat (i + 1) = Suc (unat i)" by (rule unat_add_one_below [OF True])
    show ?thesis
    proof (cases "opts ! unat i")
      case (OptionElement oe)
      with True "1.IH" show ?thesis
        by (simp add: collect_selected.simps [of opts i acc] get_with_index_below drop suc
            selected_values_def del: options_length_unat)
    next
      case (OtherElement t)
      with True show ?thesis
        by (simp add: collect_selected.simps [of opts i acc] get_with_index_below drop
            del: options_length_unat)
    qed
  qed
qed

lemma selected_values_length: "length (selected_values opts) \<le> length opts"
  by (simp add: selected_values_def)

lemma collect_selected_all:
  "length opts < 2 ^ 32 \<Longrightarrow> list_all is_option_element opts \<Longrightarrow>
   collect_selected opts 0 [] = Inr (selected_values opts)"
  by (simp add: collect_selected_drop)

lemma form_page_view_callbacks:
  assumes "3 < length (value_vec s)"
  shows "\<exists>h. form_page_view s = Inr h \<and> handlers_html h = form_page_callbacks"
proof -
  from assms have "0 < length (value_vec s)" "1 < length (value_vec s)" "2 < length (value_vec s)"
    by linarith+
  with assms show ?thesis
    by (simp add: form_page_view_def get_form_inputs_def get_select_form_def library_options_def
        form_page_callbacks_def)
qed

lemma form_page_render_ok:
  "3 < length (value_vec s) \<Longrightarrow> render form_page_component (s, r, w) = Inr (s, w)"
  using form_page_view_callbacks [of s] by (auto simp: form_page_component_simps)

lemma form_page_callbacks_cases:
  assumes "(n, a) \<in> set form_page_callbacks"
  obtains (inp) i where "i < 3" "n = ''FormInput''" "a = POnInput (input_callback i)"
    | (sel) "n = ''FormSelect''" "a = POnChange select_callback"
    | (multi) "n = ''FormSelect''" "a = POnChange multi_select_callback"
proof -
  from assms have "(n, a) = (''FormInput'', POnInput (input_callback 0)) \<or>
      (n, a) = (''FormInput'', POnInput (input_callback 1)) \<or>
      (n, a) = (''FormInput'', POnInput (input_callback 2)) \<or>
      (n, a) = (''FormSelect'', POnChange select_callback) \<or>
      (n, a) = (''FormSelect'', POnChange multi_select_callback)"
    by (simp only: form_page_callbacks_def set_simps insert_iff empty_iff simp_thms)
  then show ?thesis
  proof (elim disjE)
    assume "(n, a) = (''FormInput'', POnInput (input_callback 0))"
    then show ?thesis by (intro inp [of 0]) simp_all
  next
    assume "(n, a) = (''FormInput'', POnInput (input_callback 1))"
    then show ?thesis by (intro inp [of 1]) simp_all
  next
    assume "(n, a) = (''FormInput'', POnInput (input_callback 2))"
    then show ?thesis by (intro inp [of 2]) simp_all
  qed (simp_all add: sel multi)
qed

text \<open>
  A delivered event on one of the page's callbacks never panics in the adapter, and
  produces a write to slot 0, 1 or 2, a select of slot 3, or a multi-select result.
\<close>

lemma form_page_fire_ok:
  assumes mem: "(n, a) \<in> set form_page_callbacks"
    and dl: "dom_delivers n ev" and fr: "fire a ev = Some r"
  shows "\<exists>m. r = Inr m \<and>
    ((\<exists>v i. i < 3 \<and> m = Input v i) \<or> (\<exists>v. m = Select v 3) \<or>
     (\<exists>vs. length vs < 2 ^ 32 \<and> m = MultipleSelect vs))"
  using mem
proof (cases rule: form_page_callbacks_cases)
  case (inp i)
  with fr show ?thesis by (cases ev) (auto simp: input_callback_def)
next
  case sel
  with fr obtain d where ev: "ev = EvChange d" and r: "r = select_callback d"
    by (cases ev) auto
  with dl sel show ?thesis by (cases d) (simp_all add: select_host_def)
next
  case multi
  with fr obtain d where ev: "ev = EvChange d" and r: "r = multi_select_callback d"
    by (cases ev) auto
  with dl multi show ?thesis
    by (cases d) (auto simp: select_host_def select_options_def collect_selected_all
        intro: le_less_trans [OF selected_values_length])
qed

lemma form_page_view_texts:
  assumes "3 < length (value_vec s)"
  shows "\<exists>h. form_page_view s = Inr h \<and> html_texts h =
    [''Form Component'', ''Form input types'',
     ''Value: '' @ value_vec s ! 0, ''Value: '' @ value_vec s ! 1, ''Value: '' @ value_vec s ! 2,
     ''Value: '' @ value_vec s ! 3, ''Value: '' @ debug_pretty_vec (multiple_values s)]"
proof -
  from assms have "0 < length (value_vec s)" "1 < length (value_vec s)" "2 < length (value_vec s)"
    by linarith+
  with assms show ?thesis
    by (simp add: form_page_view_def get_form_inputs_def get_select_form_def library_options_def)
qed

lemma reachable_value_length:
  assumes "ui_reachable form_page_component sw"
  shows "length (value_vec (fst sw)) = 50"
  using assms
proof (rule ui_reachable_inv [where I = "\<lambda>sw. length (value_vec (fst sw)) = 50"])
  fix s w m s' r w'
  assume "length (value_vec (fst (s, w))) = 50"
    and "comp_update form_page_component s m w = Inr (s', r, w')"
  then show "length (value_vec (fst (s', w'))) = 50"
    by (auto simp: form_page_component_simps bind_res_eq_Inr dest!: form_page_update_length)
qed (auto simp: form_page_component_simps form_page_create_def)

lemma last_write_Nil [simp]: "last_write [] j d = d"
  by (simp add: last_write_def)

lemma last_write_Cons [simp]:
  "last_write ((v, i) # ws) j d = last_write ws j (if i = j then v else d)"
  by (auto simp: last_write_def split: list.split)

lemma initial_world_reachable:
  "ui_reachable form_page_component (form_page_create (), w)"
  using ui_create [of form_page_component "()" w] by (simp add: form_page_component_simps)

subsection \<open>The messages a user causes, and the shape of the reachable states\<close>

text \<open>
  While the view renders, every message a user can cause is a write to slot 0, 1 or 2,
  a select of slot 3, or a multi-select result shorter than \<open>2 ^ 32\<close>.
\<close>

lemma form_page_ui_message_cases:
  assumes "3 < length (value_vec s)" and "ui_message form_page_component s m"
  shows "(\<exists>v i. i < 3 \<and> m = Input v i) \<or> (\<exists>v. m = Select v 3) \<or>
    (\<exists>vs. length vs < 2 ^ 32 \<and> m = MultipleSelect vs)"
proof -
  obtain h where h: "form_page_view s = Inr h" "handlers_html h = form_page_callbacks"
    using form_page_view_callbacks [OF assms(1)] by blast
  from assms(2) obtain n a ev where mem: "(n, a) \<in> set form_page_callbacks"
    and dl: "dom_delivers n ev" and fr: "fire a ev = Some (Inr m)"
    using h by (auto simp: ui_message_def form_page_component_simps)
  from form_page_fire_ok [OF mem dl fr] show ?thesis by simp
qed

lemma form_page_shape_create: "form_page_shape (form_page_create p)"
  by (simp add: form_page_shape_def form_page_create_def list_all_iff)

lemma form_page_shape_update:
  assumes sh: "form_page_shape s" and um: "ui_message form_page_component s m"
    and up: "form_page_update s m = Inr (s', r)"
  shows "form_page_shape s'"
proof -
  from sh have "3 < length (value_vec s)" by (simp add: form_page_shape_def)
  from form_page_ui_message_cases [OF this um]
  have "(\<exists>v i. i < 3 \<and> m = Input v i) \<or> (\<exists>v. m = Select v 3) \<or>
    (\<exists>vs. length vs < 2 ^ 32 \<and> m = MultipleSelect vs)" .
  with sh up show ?thesis
    by (auto simp: form_page_shape_def form_page_update_slot_eq drop_update_cancel split: if_splits)
qed

lemma reachable_form_page_shape:
  assumes "ui_reachable form_page_component sw"
  shows "form_page_shape (fst sw)"
  using assms
proof (rule ui_reachable_inv [where I = "\<lambda>sw. form_page_shape (fst sw)"])
  fix s w m s' r w'
  assume "form_page_shape (fst (s, w))" and "ui_message form_page_component s m"
    and "comp_update form_page_component s m w = Inr (s', r, w')"
  then show "form_page_shape (fst (s', w'))"
    by (auto simp: form_page_component_simps bind_res_eq_Inr intro: form_page_shape_update)
qed (auto simp: form_page_component_simps form_page_shape_create)

subsection \<open>Properties\<close>

text \<open>
  C1 (safety): in every state a user can reach, the page renders without panicking, and
  every event the platform delivers to one of the rendered callbacks yields a message
  (the adapter does not reach \<open>unreachable!\<close> or an \<open>unwrap\<close> failure) that
  \<open>update\<close> applies without an index panic.
\<close>

theorem form_page_ui_safe:
  assumes "ui_reachable form_page_component (s, w)"
  shows "\<exists>h. form_page_view s = Inr h \<and>
    (\<forall>(n, a) \<in> set (handlers_html h). \<forall>ev r. dom_delivers n ev \<and> fire a ev = Some r \<longrightarrow>
       (\<exists>m s' rr. r = Inr m \<and> form_page_update s m = Inr (s', rr)))"
proof -
  from reachable_value_length [OF assms] have len: "length (value_vec s) = 50" by simp
  then have "3 < length (value_vec s)" by simp
  then obtain h where h: "form_page_view s = Inr h" "handlers_html h = form_page_callbacks"
    using form_page_view_callbacks by blast
  have ok: "\<exists>m s' rr. r = Inr m \<and> form_page_update s m = Inr (s', rr)"
    if "(n, a) \<in> set form_page_callbacks" "dom_delivers n ev" "fire a ev = Some r" for n a ev r
  proof -
    from form_page_fire_ok [OF that] obtain m where "r = Inr m"
      and "(\<exists>v i. i < 3 \<and> m = Input v i) \<or> (\<exists>v. m = Select v 3) \<or>
        (\<exists>vs. length vs < 2 ^ 32 \<and> m = MultipleSelect vs)"
      by blast
    with len show ?thesis by (auto simp: form_page_update_slot_eq)
  qed
  from h ok show ?thesis by fastforce
qed

theorem form_page_ui_safe_witness:
  "ui_reachable form_page_component (form_page_create (), \<lparr>styles = Map.empty, emitted = []\<rparr>) \<and>
   (\<exists>h. form_page_view (form_page_create ()) = Inr h \<and>
    (\<forall>(n, a) \<in> set (handlers_html h). \<forall>ev r. dom_delivers n ev \<and> fire a ev = Some r \<longrightarrow>
       (\<exists>m s' rr. r = Inr m \<and> form_page_update (form_page_create ()) m = Inr (s', rr))))"
  using initial_world_reachable form_page_ui_safe [OF initial_world_reachable] by blast

text \<open>
  C2 (invariant): every reachable state keeps the 50 slots \<open>create\<close> allocates.
\<close>

theorem form_page_reachable_length:
  "ui_reachable form_page_component (s, w) \<Longrightarrow> length (value_vec s) = 50"
  using reachable_value_length [of "(s, w)"] by simp

theorem form_page_reachable_length_witness:
  "ui_reachable form_page_component (form_page_create (), \<lparr>styles = Map.empty, emitted = []\<rparr>) \<and>
   length (value_vec (form_page_create ())) = 50"
  using initial_world_reachable form_page_reachable_length [OF initial_world_reachable] by blast

text \<open>
  C3 (refinement): running a sequence of \<open>Input\<close> messages with indices in range
  through the scheduler (each followed by its render) succeeds, leaves the world and the
  multi-select result alone, and leaves every slot holding the last value written to it,
  or its old value when none was.
\<close>

theorem form_page_inputs_last_write:
  assumes "3 < length (value_vec s)" and "\<forall>(v, i) \<in> set ws. i < length (value_vec s)"
  shows "\<exists>s'. run form_page_component (s, w) (map (\<lambda>(v, i). Message (Input v i)) ws) = Inr (s', w) \<and>
    multiple_values s' = multiple_values s \<and> length (value_vec s') = length (value_vec s) \<and>
    (\<forall>j < length (value_vec s). value_vec s' ! j = last_write ws j (value_vec s ! j))"
  using assms
proof (induction ws arbitrary: s)
  case Nil
  then show ?case by simp
next
  case (Cons x ws)
  obtain v i where x: "x = (v, i)" by (cases x)
  let ?s1 = "s\<lparr>value_vec := (value_vec s)[i := v]\<rparr>"
  from Cons.prems x have i: "i < length (value_vec s)" by simp
  from Cons.prems have len1: "3 < length (value_vec ?s1)" by simp
  with i have step: "run form_page_component (s, w) (map (\<lambda>(v, i). Message (Input v i)) (x # ws)) =
      run form_page_component (?s1, w) (map (\<lambda>(v, i). Message (Input v i)) ws)"
    by (simp add: x form_page_component_simps form_page_update_slot_eq form_page_render_ok
        del: render.simps)
  from Cons.prems have "\<forall>(v, i) \<in> set ws. i < length (value_vec ?s1)" by simp
  with Cons.IH [OF len1] obtain s' where
    run: "run form_page_component (?s1, w) (map (\<lambda>(v, i). Message (Input v i)) ws) = Inr (s', w)"
    and mv: "multiple_values s' = multiple_values ?s1" and ln: "length (value_vec s') = length (value_vec ?s1)"
    and sl: "\<forall>j < length (value_vec ?s1). value_vec s' ! j = last_write ws j (value_vec ?s1 ! j)"
    by blast
  have "\<forall>j < length (value_vec s). value_vec s' ! j = last_write (x # ws) j (value_vec s ! j)"
    using sl i by (auto simp: x nth_list_update)
  with step run mv ln show ?case by auto
qed

theorem form_page_inputs_last_write_witness:
  "3 < length (value_vec (form_page_create ())) \<and>
   (\<exists>s'. run form_page_component (form_page_create (), \<lparr>styles = Map.empty, emitted = []\<rparr>)
      (map (\<lambda>(v, i). Message (Input v i)) [(''a'', 0), (''b'', 2), (''c'', 0)]) =
      Inr (s', \<lparr>styles = Map.empty, emitted = []\<rparr>) \<and>
    multiple_values s' = multiple_values (form_page_create ()) \<and>
    length (value_vec s') = length (value_vec (form_page_create ())) \<and>
    (\<forall>j < length (value_vec (form_page_create ())).
       value_vec s' ! j = last_write [(''a'', 0), (''b'', 2), (''c'', 0)] j (value_vec (form_page_create ()) ! j)))"
proof -
  have h1: "3 < length (value_vec (form_page_create ()))"
    by (simp add: form_page_create_def)
  have h2: "\<forall>(v, i) \<in> set [(''a'', 0), (''b'', 2), (''c'', 0)]. i < length (value_vec (form_page_create ()))"
    by (simp add: form_page_create_def)
  show ?thesis using h1 h2 form_page_inputs_last_write [OF h1 h2] by blast
qed

text \<open>
  C4 (functional): a successful \<open>Input\<close> or \<open>Select\<close> message writes its value
  into its slot only: the length, every other slot and the multi-select result are
  unchanged, and a render is requested.
\<close>

theorem form_page_update_slot:
  assumes "m = Input v i \<or> m = Select v i" and "form_page_update s m = Inr (s', r)"
  shows "r \<and> length (value_vec s') = length (value_vec s) \<and> value_vec s' ! i = v \<and>
    (\<forall>j. j \<noteq> i \<longrightarrow> value_vec s' ! j = value_vec s ! j) \<and> multiple_values s' = multiple_values s"
  using assms by (auto simp: vec_set_def split: if_splits)

theorem form_page_update_slot_witness:
  "\<exists>s' r. form_page_update (form_page_create ()) (Input ''test'' 0) = Inr (s', r) \<and> r \<and>
     value_vec s' ! 0 = ''test'' \<and> value_vec s' ! 1 = value_vec (form_page_create ()) ! 1"
proof -
  obtain s' r where u: "form_page_update (form_page_create ()) (Input ''test'' 0) = Inr (s', r)"
    by (simp add: form_page_update_slot_eq form_page_create_def)
  from form_page_update_slot [OF disjI1 [OF refl] u] u show ?thesis by auto
qed

text \<open>
  C5 (error): an \<open>Input\<close> or \<open>Select\<close> message whose index is not below the
  vector's length panics with that index and the length, as Rust's \<open>IndexMut\<close> does,
  and the panic aborts the scheduler's run before any later message.
\<close>

theorem form_page_update_out_of_range:
  assumes "length (value_vec s) \<le> i"
  shows "form_page_update s (Input v i) = Inl (IndexOutOfBounds i (length (value_vec s))) \<and>
    form_page_update s (Select v i) = Inl (IndexOutOfBounds i (length (value_vec s))) \<and>
    run form_page_component (s, w) (Message (Input v i) # es) =
      Inl (IndexOutOfBounds i (length (value_vec s)))"
  using assms by (simp add: form_page_update_slot_eq form_page_component_simps)

theorem form_page_update_out_of_range_witness:
  "form_page_update (form_page_create ()) (Input ''x'' 50) = Inl (IndexOutOfBounds 50 50) \<and>
   form_page_update (form_page_create ()) (Select ''x'' 50) = Inl (IndexOutOfBounds 50 50) \<and>
   run form_page_component (form_page_create (), \<lparr>styles = Map.empty, emitted = []\<rparr>)
     [Message (Input ''x'' 50), Message (Input ''y'' 0)] = Inl (IndexOutOfBounds 50 50)"
proof -
  have len: "length (value_vec (form_page_create ())) = 50" by (simp add: form_page_create_def)
  then have "length (value_vec (form_page_create ())) \<le> 50" by simp
  from form_page_update_out_of_range [OF this, of "''x''" "\<lparr>styles = Map.empty, emitted = []\<rparr>"
      "[Message (Input ''y'' 0)]"] len
  show ?thesis by simp
qed

text \<open>
  C6 (equivalence): on a collection of fewer than \<open>2 ^ 32\<close> entries (every DOM
  collection), the index-driven loop of the multi-select callback computes the
  reference \<open>selected_values\<close> (the values of the selected options in list order)
  when every entry is an option element, and panics with an \<open>unwrap\<close> failure
  otherwise; the callback wraps the result in \<open>MultipleSelect\<close>.
\<close>

theorem multi_select_loop_eq:
  assumes "length opts < 2 ^ 32"
  shows "collect_selected opts 0 [] =
     (if list_all is_option_element opts then Inr (selected_values opts) else Inl UnwrapErr) \<and>
   multi_select_callback (Change_Select \<lparr>sel_options = opts\<rparr>) =
     (if list_all is_option_element opts
      then Inr (MultipleSelect (selected_values opts)) else Inl UnwrapErr)"
  using assms by (simp add: collect_selected_drop select_options_def)

theorem multi_select_loop_eq_witness:
  "length [OptionElement \<lparr>opt_value = ''yew'', opt_selected = True\<rparr>, OtherElement ''hr''] < 2 ^ 32 \<and>
   collect_selected [OptionElement \<lparr>opt_value = ''yew'', opt_selected = True\<rparr>, OtherElement ''hr''] 0 [] =
     Inl UnwrapErr \<and>
   multi_select_callback (Change_Select \<lparr>sel_options = [OptionElement \<lparr>opt_value = ''yew'', opt_selected = True\<rparr>]\<rparr>) =
     Inr (MultipleSelect [''yew''])"
proof -
  have l1: "length [OptionElement \<lparr>opt_value = ''yew'', opt_selected = True\<rparr>, OtherElement ''hr''] < 2 ^ 32"
    by simp
  have l2: "length [OptionElement \<lparr>opt_value = ''yew'', opt_selected = True\<rparr>] < 2 ^ 32"
    by simp
  from multi_select_loop_eq [OF l1] multi_select_loop_eq [OF l2] l1 show ?thesis
    by (simp add: selected_values_def)
qed

text \<open>
  C7 (functional): mounting the page renders it and leaves 50 blank slots and an empty
  multi-select result; typing \<open>test\<close> into the first input is a message the page
  can receive, and folding it sets slot 0 to \<open>test\<close> and leaves the other 49 blank.
\<close>

theorem form_page_end_to_end:
  "mount form_page_component () w = Inr (form_page_create (), w) \<and>
   value_vec (form_page_create ()) = replicate 50 [] \<and> multiple_values (form_page_create ()) = [] \<and>
   ui_message form_page_component (form_page_create ()) (Input ''test'' 0) \<and>
   run form_page_component (form_page_create (), w) [Message (Input ''test'' 0)] =
     Inr (\<lparr>value_vec = ''test'' # replicate 49 [], multiple_values = []\<rparr>, w)"
proof -
  have len: "3 < length (value_vec (form_page_create ()))" by (simp add: form_page_create_def)
  then obtain h where h: "form_page_view (form_page_create ()) = Inr h"
    and hs: "handlers_html h = form_page_callbacks"
    using form_page_view_callbacks by blast
  have rep: "replicate 50 ([] :: string) = [] # replicate 49 []"
    by (simp add: numeral_eq_Suc)
  have msg: "ui_message form_page_component (form_page_create ()) (Input ''test'' 0)"
  proof (rule ui_messageI)
    show "comp_view form_page_component (form_page_create ()) = Inr h"
      by (simp add: form_page_component_simps h)
    show "(''FormInput'', POnInput (input_callback 0)) \<in> set (handlers_html h)"
      by (simp add: hs form_page_callbacks_def)
    show "dom_delivers ''FormInput'' (EvInput \<lparr>input_value = ''test''\<rparr>)" by simp
    show "fire (POnInput (input_callback 0)) (EvInput \<lparr>input_value = ''test''\<rparr>) = Some (Inr (Input ''test'' 0))"
      by (simp add: input_callback_def)
  qed
  let ?s1 = "(form_page_create ())\<lparr>value_vec := (value_vec (form_page_create ()))[0 := ''test'']\<rparr>"
  have l1: "3 < length (value_vec ?s1)" using len by simp
  have ne: "value_vec (form_page_create ()) \<noteq> []" by (simp add: form_page_create_def)
  have mnt: "mount form_page_component () w = Inr (form_page_create (), w)"
    using h by (simp add: mount_def form_page_component_simps)
  have run: "run form_page_component (form_page_create (), w) [Message (Input ''test'' 0)] = Inr (?s1, w)"
    using len form_page_render_ok [OF l1] ne
    by (simp add: form_page_component_simps form_page_update_slot_eq del: render.simps)
  have s1: "?s1 = \<lparr>value_vec = ''test'' # replicate 49 [], multiple_values = []\<rparr>"
    by (simp add: form_page_create_def rep)
  from mnt run s1 msg show ?thesis by (simp add: form_page_create_def)
qed

text \<open>
  C8 (error): with fewer than four slots the view panics, and the panic names the first
  index it reads out of range, which is the length.
\<close>

theorem form_page_view_short:
  assumes "length (value_vec s) \<le> 3"
  shows "form_page_view s = Inl (IndexOutOfBounds (length (value_vec s)) (length (value_vec s)))"
proof -
  consider "length (value_vec s) = 0" | "length (value_vec s) = 1" | "length (value_vec s) = 2"
    | "length (value_vec s) = 3"
    using assms by linarith
  then show ?thesis
    by cases (simp_all add: form_page_view_def get_form_inputs_def get_select_form_def)
qed

theorem form_page_view_short_witness:
  "form_page_view \<lparr>value_vec = [''a'', ''b''], multiple_values = []\<rparr> = Inl (IndexOutOfBounds 2 2)"
  using form_page_view_short [of "\<lparr>value_vec = [''a'', ''b''], multiple_values = []\<rparr>"] by simp

text \<open>
  C9 (roundtrip): in a reachable state, an input event on one of the three text inputs
  is written into that input's slot, and the re-rendered page displays it as
  \<open>Value: \<close> followed by the typed text.
\<close>

theorem form_page_input_roundtrip:
  assumes "ui_reachable form_page_component (s, w)" and "k < 3"
  shows "\<exists>s' h. form_page_update s (input_callback k d) = Inr (s', True) \<and> form_page_view s' = Inr h \<and>
    value_vec s' ! k = input_value d \<and> (''Value: '' @ input_value d) \<in> set (html_texts h)"
proof -
  from reachable_value_length [of "(s, w)"] assms(1) have len: "length (value_vec s) = 50" by simp
  let ?s' = "s\<lparr>value_vec := (value_vec s)[k := input_value d]\<rparr>"
  from len assms(2) have upd: "form_page_update s (input_callback k d) = Inr (?s', True)"
    by (simp add: input_callback_def form_page_update_slot_eq)
  from len assms(2) have slot: "value_vec ?s' ! k = input_value d" by simp
  from len have "3 < length (value_vec ?s')" by simp
  then obtain h where h: "form_page_view ?s' = Inr h" and t: "html_texts h =
    [''Form Component'', ''Form input types'',
     ''Value: '' @ value_vec ?s' ! 0, ''Value: '' @ value_vec ?s' ! 1, ''Value: '' @ value_vec ?s' ! 2,
     ''Value: '' @ value_vec ?s' ! 3, ''Value: '' @ debug_pretty_vec (multiple_values ?s')]"
    using form_page_view_texts by blast
  from assms(2) have "k = 0 \<or> k = 1 \<or> k = 2" by linarith
  with slot t have "(''Value: '' @ input_value d) \<in> set (html_texts h)" by auto
  with upd h slot show ?thesis by blast
qed

theorem form_page_input_roundtrip_witness:
  "\<exists>s' h. form_page_update (form_page_create ()) (input_callback 1 \<lparr>input_value = ''hi''\<rparr>) = Inr (s', True) \<and>
    form_page_view s' = Inr h \<and> value_vec s' ! 1 = ''hi'' \<and> ''Value: hi'' \<in> set (html_texts h)"
proof -
  have r: "ui_reachable form_page_component (form_page_create (), \<lparr>styles = Map.empty, emitted = []\<rparr>)"
    by (rule initial_world_reachable)
  show ?thesis using form_page_input_roundtrip [OF r, of 1 "\<lparr>input_value = ''hi''\<rparr>"] by simp
qed

text \<open>
  C21 (invariant): in every state a user can reach, the slots 4 to 49, which no callback
  writes, are still blank, and the multi-select result has fewer than \<open>2 ^ 32\<close>
  values.
\<close>

theorem form_page_reachable_blank:
  assumes "ui_reachable form_page_component (s, w)"
  shows "drop 4 (value_vec s) = replicate 46 [] \<and> length (multiple_values s) < 2 ^ 32"
proof -
  from reachable_form_page_shape [OF assms] have sh: "form_page_shape s" by simp
  then have "replicate (length (drop 4 (value_vec s))) [] = drop 4 (value_vec s)"
    by (intro replicate_length_same) (simp add: form_page_shape_def list_all_iff)
  with sh show ?thesis by (simp add: form_page_shape_def)
qed

theorem form_page_reachable_blank_witness:
  "ui_reachable form_page_component (form_page_create (), \<lparr>styles = Map.empty, emitted = []\<rparr>) \<and>
   drop 4 (value_vec (form_page_create ())) = replicate 46 [] \<and>
   length (multiple_values (form_page_create ())) < 2 ^ 32"
  using initial_world_reachable form_page_reachable_blank [OF initial_world_reachable] by blast

text \<open>
  C23 (roundtrip): in a reachable state, a change of the multi-select with an options
  collection the platform delivers yields the selected values in list order, the page
  stores them, and the re-rendered page displays them in its last \<open>Value: \<close> line in
  a form that reads back (\<open>parse_pretty_vec\<close>) as exactly those values.
\<close>

theorem form_page_multi_display_roundtrip:
  assumes "ui_reachable form_page_component (s, w)"
    and "list_all is_option_element opts" and "length opts < 2 ^ 32"
  shows "\<exists>s' h. multi_select_callback (Change_Select \<lparr>sel_options = opts\<rparr>) =
      Inr (MultipleSelect (selected_values opts)) \<and>
    form_page_update s (MultipleSelect (selected_values opts)) = Inr (s', True) \<and>
    form_page_view s' = Inr h \<and>
    parse_pretty_vec (drop 7 (last (html_texts h))) = Some (selected_values opts)"
proof -
  from reachable_value_length [of "(s, w)"] assms(1) have len: "length (value_vec s) = 50" by simp
  let ?s' = "s\<lparr>multiple_values := selected_values opts\<rparr>"
  have cb: "multi_select_callback (Change_Select \<lparr>sel_options = opts\<rparr>) =
      Inr (MultipleSelect (selected_values opts))"
    using assms(2,3) by (simp add: select_options_def collect_selected_all)
  have up: "form_page_update s (MultipleSelect (selected_values opts)) = Inr (?s', True)" by simp
  from len have "3 < length (value_vec ?s')" by simp
  then obtain h where h: "form_page_view ?s' = Inr h" and t: "html_texts h =
    [''Form Component'', ''Form input types'',
     ''Value: '' @ value_vec ?s' ! 0, ''Value: '' @ value_vec ?s' ! 1, ''Value: '' @ value_vec ?s' ! 2,
     ''Value: '' @ value_vec ?s' ! 3, ''Value: '' @ debug_pretty_vec (multiple_values ?s')]"
    using form_page_view_texts by blast
  have "parse_pretty_vec (drop 7 (last (html_texts h))) = Some (selected_values opts)"
    by (simp add: t parse_pretty_vec_debug)
  with cb up h show ?thesis by blast
qed

theorem form_page_multi_display_roundtrip_witness:
  "\<exists>s' h. multi_select_callback (Change_Select \<lparr>sel_options =
      [OptionElement \<lparr>opt_value = ''yew'', opt_selected = True\<rparr>,
       OptionElement \<lparr>opt_value = ''yew_prism'', opt_selected = True\<rparr>]\<rparr>) =
      Inr (MultipleSelect [''yew'', ''yew_prism'']) \<and>
    form_page_update (form_page_create ()) (MultipleSelect [''yew'', ''yew_prism'']) = Inr (s', True) \<and>
    form_page_view s' = Inr h \<and>
    parse_pretty_vec (drop 7 (last (html_texts h))) = Some [''yew'', ''yew_prism'']"
proof -
  let ?o = "[OptionElement \<lparr>opt_value = ''yew'', opt_selected = True\<rparr>,
       OptionElement \<lparr>opt_value = ''yew_prism'', opt_selected = True\<rparr>]"
  have "list_all is_option_element ?o" "length ?o < 2 ^ 32" by simp_all
  from form_page_multi_display_roundtrip [OF initial_world_reachable this] show ?thesis
    by (simp add: selected_values_def)
qed

text \<open>
  C28 (functional, boundary): when no option of a delivered collection is selected, the
  select writes the empty string into slot 3 (\<open>HTMLSelectElement.value\<close> of no
  selection), the multi-select yields the empty vector, and the page then displays it as
  \<open>Value: []\<close>.
\<close>

theorem form_page_empty_selection:
  assumes "3 < length (value_vec s)" and "list_all is_option_element opts"
    and "length opts < 2 ^ 32" and "\<not> list_ex (\<lambda>e. opt_selected (option_of e)) opts"
  shows "select_callback (Change_Select \<lparr>sel_options = opts\<rparr>) = Inr (Select [] 3) \<and>
    multi_select_callback (Change_Select \<lparr>sel_options = opts\<rparr>) = Inr (MultipleSelect []) \<and>
    (\<exists>h. form_page_view (s\<lparr>multiple_values := []\<rparr>) = Inr h \<and> last (html_texts h) = ''Value: []'')"
proof -
  have none: "filter opt_selected (map option_of opts) = []"
    using assms(4) by (simp add: filter_empty_conv list_ex_iff)
  moreover from assms(2) have "filter is_option_element opts = opts"
    by (simp add: list_all_iff)
  ultimately have sel: "select_callback (Change_Select \<lparr>sel_options = opts\<rparr>) = Inr (Select [] 3)"
    by (simp add: select_value_def)
  have multi: "multi_select_callback (Change_Select \<lparr>sel_options = opts\<rparr>) = Inr (MultipleSelect [])"
    using assms(2,3) none by (simp add: select_options_def collect_selected_all selected_values_def)
  from assms(1) have "3 < length (value_vec (s\<lparr>multiple_values := []\<rparr>))" by simp
  from form_page_view_texts [OF this] obtain h where
    "form_page_view (s\<lparr>multiple_values := []\<rparr>) = Inr h"
    "last (html_texts h) = ''Value: '' @ debug_pretty_vec []"
    by auto
  then have "\<exists>h. form_page_view (s\<lparr>multiple_values := []\<rparr>) = Inr h \<and> last (html_texts h) = ''Value: []''"
    by (auto simp: debug_pretty_vec_def)
  with sel multi show ?thesis by blast
qed

theorem form_page_empty_selection_witness:
  "select_callback (Change_Select \<lparr>sel_options = [OptionElement \<lparr>opt_value = ''yew'', opt_selected = False\<rparr>]\<rparr>) =
     Inr (Select [] 3) \<and>
   multi_select_callback (Change_Select \<lparr>sel_options = [OptionElement \<lparr>opt_value = ''yew'', opt_selected = False\<rparr>]\<rparr>) =
     Inr (MultipleSelect []) \<and>
   (\<exists>h. form_page_view ((form_page_create ())\<lparr>multiple_values := []\<rparr>) = Inr h \<and> last (html_texts h) = ''Value: []'')"
proof -
  have "3 < length (value_vec (form_page_create ()))" by (simp add: form_page_create_def)
  moreover have "list_all is_option_element [OptionElement \<lparr>opt_value = ''yew'', opt_selected = False\<rparr>]"
    "length [OptionElement \<lparr>opt_value = ''yew'', opt_selected = False\<rparr>] < 2 ^ 32"
    "\<not> list_ex (\<lambda>e. opt_selected (option_of e)) [OptionElement \<lparr>opt_value = ''yew'', opt_selected = False\<rparr>]"
    by simp_all
  ultimately show ?thesis by (rule form_page_empty_selection)
qed

end
