(* ===== verification/Navbar.thy ===== *)
theory Navbar
  imports Yew_Component
begin

text \<open>
  The \<open>Navbar\<close> of \<open>src/crate/yew_styles/src/components/navbar/navbar.rs\<close>. The
  parent passes \<open>Props\<close> (record \<open>nav_props\<close>: palette, style, custom class,
  \<open>fixed\<close> position mode, children); the component keeps them converted to class tokens
  (\<open>NavbarProps\<close>, record \<open>navbar_props\<close>, by \<open>navbar_props_from\<close>) and the flag
  \<open>display_menu\<close>. \<open>NavbarModel::init\<close> / \<open>set_fixed\<close> write the CSS position
  of the class \<open>navbar\<close> into the style table of the world; \<open>mounted\<close> runs it on the
  current properties and \<open>change\<close> runs it on the current properties before adopting
  the new ones. The only message, \<open>TroggleMenu\<close>, flips \<open>display_menu\<close>; the view
  renders the children in the mobile menu only while it is set, and always in the
  desktop bar. Children are the parent's nodes, of the type \<open>'c\<close>.
\<close>

datatype fixed = Fixed_None | Top | Bottom

datatype navbar_msg = TroggleMenu

record 'c nav_props =
  navbar_type :: palette
  navbar_style :: style
  class_name :: string
  fixed :: fixed
  children :: "'c list"

record 'c navbar_props =
  np_navbar_type :: string
  np_navbar_style :: string
  np_class_name :: string
  np_fixed :: fixed
  np_children :: "'c list"

record 'c navbar =
  props :: "'c navbar_props"
  display_menu :: bool

definition navbar_props_from :: "'c nav_props \<Rightarrow> 'c navbar_props" where
  "navbar_props_from p =
     \<lparr>np_navbar_type = get_palette (navbar_type p), np_navbar_style = get_style (navbar_style p),
      np_class_name = class_name p, np_fixed = fixed p, np_children = children p\<rparr>"

definition navbar_create :: "'c nav_props \<Rightarrow> 'c navbar" where
  "navbar_create p = \<lparr>props = navbar_props_from p, display_menu = False\<rparr>"

text \<open>\<open>NavbarModel::set_fixed\<close>: the position, then the offset when the bar is fixed.\<close>

definition set_fixed :: "fixed \<Rightarrow> style_table \<Rightarrow> style_table" where
  "set_fixed fx t =
     (let t1 = create_style ''position'' (if fx = Fixed_None then ''inherit'' else ''fixed'') ''navbar'' t
      in if fx \<noteq> Fixed_None
         then create_style (if fx = Top then ''top'' else ''bottom'') ''0'' ''navbar'' t1
         else t1)"

definition navbar_model_init :: "'c navbar_props \<Rightarrow> style_table \<Rightarrow> style_table" where
  "navbar_model_init p t = set_fixed (np_fixed p) t"

definition navbar_mounted :: "'c navbar \<Rightarrow> world \<Rightarrow> 'c navbar \<times> bool \<times> world" where
  "navbar_mounted s w = (s, True, w\<lparr>styles := navbar_model_init (props s) (styles w)\<rparr>)"

fun navbar_update :: "'c navbar \<Rightarrow> navbar_msg \<Rightarrow> 'c navbar \<times> bool" where
  "navbar_update s TroggleMenu = (s\<lparr>display_menu := \<not> display_menu s\<rparr>, True)"

definition navbar_change :: "'c navbar \<Rightarrow> 'c nav_props \<Rightarrow> world \<Rightarrow> 'c navbar \<times> bool \<times> world" where
  "navbar_change s p w =
     (let w' = w\<lparr>styles := navbar_model_init (props s) (styles w)\<rparr>
      in (s\<lparr>props := navbar_props_from p\<rparr>, True, w'))"

definition navbar_classes :: "string \<Rightarrow> 'c navbar_props \<Rightarrow> string" where
  "navbar_classes prefix p =
     prefix @ '' '' @ np_navbar_style p @ '' '' @ np_navbar_type p @ '' '' @ np_class_name p"

definition navbar_view :: "'c navbar \<Rightarrow> (navbar_msg, 'c) html" where
  "navbar_view s =
     VList
       [VTag ''div'' [(''class'', PStr (navbar_classes ''navbar-mobile'' (props s)))]
          [VComp ''NavbarContainer'' [(''justify_content'', PJustify (End NoMode))]
             [VComp ''NavbarItem'' [(''onsignal'', POnClick (\<lambda>_. TroggleMenu))]
                [VTag ''img'' [(''src'', PStr ''./assets/menu.svg'')] []]],
           if display_menu s then VList (map VForeign (np_children (props s))) else VList []],
        VTag ''div'' [(''class'', PStr (navbar_classes ''navbar'' (props s)))]
          [VList (map VForeign (np_children (props s)))]]"

definition navbar_component :: "('c nav_props, 'c navbar, navbar_msg, 'c) component" where
  "navbar_component =
     \<lparr>comp_create = navbar_create,
      comp_mounted = navbar_mounted,
      comp_update = (\<lambda>s m w. Inr (fst (navbar_update s m), snd (navbar_update s m), w)),
      comp_change = navbar_change,
      comp_view = (\<lambda>s. Inr (navbar_view s))\<rparr>"

subsection \<open>Reference definitions\<close>

text \<open>The entries of the style table the Navbar writes.\<close>

definition navbar_style_keys :: "(string \<times> string) set" where
  "navbar_style_keys = {(''navbar'', ''position''), (''navbar'', ''top''), (''navbar'', ''bottom'')}"

text \<open>
  The values the Navbar may leave in its entries of the style table: a CSS position it
  writes (\<open>inherit\<close> or \<open>fixed\<close>) and the offset \<open>0\<close>, or nothing.
\<close>

definition navbar_styles_ok :: "style_table \<Rightarrow> bool" where
  "navbar_styles_ok t \<longleftrightarrow>
     t (''navbar'', ''position'') \<in> {None, Some ''inherit'', Some ''fixed''} \<and>
     t (''navbar'', ''top'') \<in> {None, Some ''0''} \<and> t (''navbar'', ''bottom'') \<in> {None, Some ''0''}"

text \<open>Properties of a bar fixed at the top, with no children.\<close>

definition top_props :: "unit nav_props" where
  "top_props = \<lparr>navbar_type = Standard, navbar_style = Regular, class_name = [], fixed = Top, children = []\<rparr>"

text \<open>
  The abstract run of a Navbar: the converted properties in force after a sequence of
  lifecycle events, the number of menu clicks in it, and the fixed modes the style
  table is written with, one per \<open>Mount\<close> or \<open>NewProps\<close>, each the mode in force
  just before that event.
\<close>

fun props_after :: "'c navbar_props \<Rightarrow> ('c nav_props, navbar_msg) lifecycle list \<Rightarrow> 'c navbar_props" where
  "props_after q [] = q"
| "props_after q (NewProps p # es) = props_after (navbar_props_from p) es"
| "props_after q (_ # es) = props_after q es"

fun toggles :: "('c nav_props, navbar_msg) lifecycle list \<Rightarrow> nat" where
  "toggles [] = 0"
| "toggles (Message _ # es) = Suc (toggles es)"
| "toggles (_ # es) = toggles es"

fun inits_after :: "'c navbar_props \<Rightarrow> ('c nav_props, navbar_msg) lifecycle list \<Rightarrow> fixed list" where
  "inits_after q [] = []"
| "inits_after q (Mount # es) = np_fixed q # inits_after q es"
| "inits_after q (NewProps p # es) = np_fixed q # inits_after (navbar_props_from p) es"
| "inits_after q (Message _ # es) = inits_after q es"

subsection \<open>Lemmas\<close>

lemma navbar_component_simps:
  "comp_create navbar_component = navbar_create"
  "comp_mounted navbar_component = navbar_mounted"
  "comp_update navbar_component s m w = Inr (fst (navbar_update s m), snd (navbar_update s m), w)"
  "comp_change navbar_component = navbar_change"
  "comp_view navbar_component s = Inr (navbar_view s)"
  by (simp_all add: navbar_component_def)

lemma navbar_view_handlers:
  "handlers_html (navbar_view s) = [(''NavbarItem'', POnClick (\<lambda>_. TroggleMenu))]"
  by (simp add: navbar_view_def)

lemma set_fixed_position:
  "set_fixed fx t (''navbar'', ''position'') = Some (if fx = Fixed_None then ''inherit'' else ''fixed'')"
  by (simp add: set_fixed_def Let_def)

lemma set_fixed_frame:
  "k \<notin> navbar_style_keys \<Longrightarrow> set_fixed fx t k = t k"
  by (auto simp: set_fixed_def Let_def navbar_style_keys_def)

lemma navbar_step_frame:
  "lifecycle_step navbar_component sw e = Inr (s, r, w) \<Longrightarrow>
   emitted w = emitted (snd sw) \<and> (\<forall>k. k \<notin> navbar_style_keys \<longrightarrow> styles w k = styles (snd sw) k)"
  by (cases sw; cases e)
     (auto simp: navbar_component_simps navbar_mounted_def navbar_change_def navbar_model_init_def
       set_fixed_frame)

lemma navbar_ui_message_aux: "ui_message navbar_component s TroggleMenu"
  by (intro ui_messageI [where h = "navbar_view s" and n = "''NavbarItem''"
        and a = "POnClick (\<lambda>_. TroggleMenu)" and ev = "EvClick \<lparr>client_x = 0, client_y = 0\<rparr>"])
     (simp_all add: navbar_component_simps navbar_view_handlers)

lemma set_fixed_styles_ok: "navbar_styles_ok t \<Longrightarrow> navbar_styles_ok (set_fixed fx t)"
  by (auto simp: navbar_styles_ok_def set_fixed_def Let_def)

lemma navbar_step_styles_ok:
  "navbar_styles_ok (styles (snd sw)) \<Longrightarrow> lifecycle_step navbar_component sw e = Inr (s, r, w) \<Longrightarrow>
   navbar_styles_ok (styles w)"
  by (cases sw; cases e)
     (auto simp: navbar_component_simps navbar_mounted_def navbar_change_def navbar_model_init_def
       set_fixed_styles_ok)

text \<open>On an empty table, the styles \<open>set_fixed\<close> writes determine the mode.\<close>

lemma set_fixed_empty_inj: "set_fixed a Map.empty = set_fixed b Map.empty \<longleftrightarrow> a = b"
proof
  assume eq: "set_fixed a Map.empty = set_fixed b Map.empty"
  from fun_cong [OF eq, of "(''navbar'', ''position'')"] fun_cong [OF eq, of "(''navbar'', ''top'')"]
  show "a = b" by (cases a; cases b) (simp_all add: set_fixed_def Let_def)
qed simp

text \<open>An offset in the table survives \<open>set_fixed\<close> and every step of the Navbar.\<close>

lemma set_fixed_keeps_offset:
  "off = ''top'' \<or> off = ''bottom'' \<Longrightarrow> t (''navbar'', off) = Some ''0'' \<Longrightarrow>
   set_fixed fx t (''navbar'', off) = Some ''0''"
  by (auto simp: set_fixed_def Let_def)

lemma navbar_step_keeps_offset:
  "off = ''top'' \<or> off = ''bottom'' \<Longrightarrow> styles (snd sw) (''navbar'', off) = Some ''0'' \<Longrightarrow>
   lifecycle_step navbar_component sw e = Inr (s, r, w) \<Longrightarrow> styles w (''navbar'', off) = Some ''0''"
  by (cases sw; cases e)
     (auto simp: navbar_component_simps navbar_mounted_def navbar_change_def navbar_model_init_def
       set_fixed_keeps_offset)

subsection \<open>Properties\<close>

text \<open>
  C10 (functional): the view is a mobile bar and a desktop bar; the mobile bar renders
  the children exactly while \<open>display_menu\<close> is set, the desktop bar always.
\<close>

theorem navbar_view_menu:
  "\<exists>mobile desktop. navbar_view s = VList [mobile, desktop] \<and>
     html_foreign mobile = (if display_menu s then np_children (props s) else []) \<and>
     html_foreign desktop = np_children (props s)"
  by (simp add: navbar_view_def comp_def)

text \<open>
  C11 (functional, a defect): \<open>change\<close> adopts the new properties and asks for a
  render, but the position it writes into the style table is that of the properties it
  held before: \<open>NavbarModel.init\<close> runs on \<open>self.props\<close> before the assignment.
\<close>

theorem navbar_change_stale_style:
  assumes "navbar_change s p w = (s', r, w')"
  shows "r \<and> props s' = navbar_props_from p \<and> display_menu s' = display_menu s \<and>
    styles w' (''navbar'', ''position'') =
      Some (if np_fixed (props s) = Fixed_None then ''inherit'' else ''fixed'')"
  using assms by (auto simp: navbar_change_def navbar_model_init_def set_fixed_position)

theorem navbar_change_stale_style_witness:
  "\<exists>s' r w'. navbar_change (navbar_create top_props) (top_props\<lparr>fixed := Fixed_None\<rparr>)
      \<lparr>styles = Map.empty, emitted = []\<rparr> = (s', r, w') \<and>
    r \<and> np_fixed (props s') = Fixed_None \<and> styles w' (''navbar'', ''position'') = Some ''fixed''"
proof -
  obtain s' r w' where c: "navbar_change (navbar_create top_props) (top_props\<lparr>fixed := Fixed_None\<rparr>)
      \<lparr>styles = Map.empty, emitted = []\<rparr> = (s', r, w')"
    by (cases "navbar_change (navbar_create top_props) (top_props\<lparr>fixed := Fixed_None\<rparr>)
      \<lparr>styles = Map.empty, emitted = []\<rparr>") auto
  from navbar_change_stale_style [OF c] c show ?thesis
    by (auto simp add: navbar_create_def navbar_props_from_def top_props_def)
qed

text \<open>
  C12 (safety, a defect): \<open>set_fixed\<close> never clears an offset: once \<open>top: 0\<close> or
  \<open>bottom: 0\<close> is in the style table, it stays there through every run of lifecycle
  events, whatever fixed modes the bar is reconfigured to. A bar that has been at the top
  and is moved to the bottom ends with both offsets, as the witness shows.
\<close>

theorem navbar_offset_never_cleared:
  assumes "off = ''top'' \<or> off = ''bottom''" and "styles w (''navbar'', off) = Some ''0''"
    and "run navbar_component (s, w) es = Inr (s', w')"
  shows "styles w' (''navbar'', off) = Some ''0''"
  using run_inv [where I = "\<lambda>sw. styles (snd sw) (''navbar'', off) = Some ''0''" and c = navbar_component]
    navbar_step_keeps_offset [OF assms(1)] assms(2,3)
  by fastforce

theorem navbar_offset_never_cleared_witness:
  "\<exists>s' w'. run navbar_component (navbar_create top_props, \<lparr>styles = Map.empty, emitted = []\<rparr>)
      [Mount, NewProps (top_props\<lparr>fixed := Bottom\<rparr>), NewProps (top_props\<lparr>fixed := Bottom\<rparr>)] = Inr (s', w') \<and>
    np_fixed (props s') = Bottom \<and> styles w' (''navbar'', ''bottom'') = Some ''0'' \<and>
    styles w' (''navbar'', ''top'') = Some ''0''"
proof -
  let ?es = "[NewProps (top_props\<lparr>fixed := Bottom\<rparr>), NewProps (top_props\<lparr>fixed := Bottom\<rparr>)]"
  let ?s1 = "navbar_create top_props"
  let ?w1 = "\<lparr>styles = set_fixed Top Map.empty, emitted = []\<rparr>"
  have top: "''top'' = ''top'' \<or> ''top'' = ''bottom''" by simp
  have w1: "styles ?w1 (''navbar'', ''top'') = Some ''0''" by (simp add: set_fixed_def)
  have m: "run navbar_component (?s1, \<lparr>styles = Map.empty, emitted = []\<rparr>) (Mount # ?es) =
      run navbar_component (?s1, ?w1) ?es"
    by (simp add: navbar_component_simps navbar_mounted_def navbar_model_init_def navbar_create_def
        navbar_props_from_def top_props_def)
  have "\<exists>s' w'. run navbar_component (?s1, ?w1) ?es = Inr (s', w') \<and>
      np_fixed (props s') = Bottom \<and> styles w' (''navbar'', ''bottom'') = Some ''0''"
    by (simp add: navbar_component_simps navbar_change_def navbar_model_init_def set_fixed_def
        navbar_create_def navbar_props_from_def top_props_def)
  then obtain s' w' where r: "run navbar_component (?s1, ?w1) ?es = Inr (s', w')"
    and f: "np_fixed (props s') = Bottom" and b: "styles w' (''navbar'', ''bottom'') = Some ''0''"
    by blast
  from navbar_offset_never_cleared [OF top w1 r] m r f b show ?thesis by auto
qed

text \<open>
  C13 (invariant): any run of lifecycle events emits no callback and writes the style
  table only at the position and the two offsets of the class \<open>navbar\<close>.
\<close>

theorem navbar_run_styles_frame:
  assumes "run navbar_component (s, w) es = Inr (s', w')"
  shows "emitted w' = emitted w \<and> (\<forall>k. k \<notin> navbar_style_keys \<longrightarrow> styles w' k = styles w k)"
proof -
  have "(\<lambda>sw. emitted (snd sw) = emitted w \<and>
      (\<forall>k. k \<notin> navbar_style_keys \<longrightarrow> styles (snd sw) k = styles w k)) (s', w')"
  proof (rule run_inv [OF _ _ assms])
    fix sw e s1 r w1
    assume "emitted (snd sw) = emitted w \<and> (\<forall>k. k \<notin> navbar_style_keys \<longrightarrow> styles (snd sw) k = styles w k)"
      and "lifecycle_step navbar_component sw e = Inr (s1, r, w1)"
    then show "emitted (snd (s1, w1)) = emitted w \<and>
        (\<forall>k. k \<notin> navbar_style_keys \<longrightarrow> styles (snd (s1, w1)) k = styles w k)"
      using navbar_step_frame by fastforce
  qed simp
  then show ?thesis by simp
qed

theorem navbar_run_styles_frame_witness:
  "\<exists>s' w'. run navbar_component (navbar_create top_props, \<lparr>styles = Map.empty, emitted = []\<rparr>)
      [Mount, Message TroggleMenu] = Inr (s', w') \<and> emitted w' = [] \<and>
    styles w' (''navbar'', ''left'') = None"
proof -
  obtain s' w' where r: "run navbar_component (navbar_create top_props, \<lparr>styles = Map.empty, emitted = []\<rparr>)
      [Mount, Message TroggleMenu] = Inr (s', w')"
    by (simp add: navbar_component_simps navbar_mounted_def)
  have "(''navbar'', ''left'') \<notin> navbar_style_keys" by (simp add: navbar_style_keys_def)
  with navbar_run_styles_frame [OF r] r show ?thesis by auto
qed

text \<open>
  C14 (functional): mounting renders the bar and yields the converted properties with
  the menu hidden, and writes the position styles of the initial \<open>fixed\<close> mode.
\<close>

theorem navbar_mount:
  "mount navbar_component p w =
     Inr (\<lparr>props = navbar_props_from p, display_menu = False\<rparr>,
          w\<lparr>styles := set_fixed (fixed p) (styles w)\<rparr>)"
  by (simp add: mount_def navbar_component_simps navbar_mounted_def navbar_model_init_def
      navbar_create_def navbar_props_from_def)

text \<open>
  C20 (functional): the Navbar's class strings, derived from the properties by
  \<open>From\<close> and \<open>format!\<close>, agree for two property sets exactly when their style,
  palette and custom class agree.
\<close>

theorem navbar_classes_determine:
  "navbar_classes pre (navbar_props_from p) = navbar_classes pre (navbar_props_from q) \<longleftrightarrow>
     navbar_style p = navbar_style q \<and> navbar_type p = navbar_type q \<and> class_name p = class_name q"
  by (simp add: navbar_classes_def navbar_props_from_def class_token_sep_eqs)

text \<open>
  C22 (liveness): from every state the user can open or close the mobile menu with at
  most one click on the menu item, changing nothing else: the properties and the world
  stay as they are, and the mobile bar then shows the children exactly when the menu is
  open.
\<close>

theorem navbar_menu_live:
  "ui_steps navbar_component (s, w) (s\<lparr>display_menu := b\<rparr>, w) \<and>
   html_foreign (navbar_view (s\<lparr>display_menu := b\<rparr>)) =
     (if b then np_children (props s) else []) @ np_children (props s)"
proof
  show "ui_steps navbar_component (s, w) (s\<lparr>display_menu := b\<rparr>, w)"
  proof (cases "display_menu s = b")
    case True
    then have "s\<lparr>display_menu := b\<rparr> = s" by simp
    then show ?thesis by (simp add: ui_refl)
  next
    case False
    then have "comp_update navbar_component s TroggleMenu w = Inr (s\<lparr>display_menu := b\<rparr>, True, w)"
      by (simp add: navbar_component_simps)
    with navbar_ui_message_aux show ?thesis by (rule ui_steps_one)
  qed
  show "html_foreign (navbar_view (s\<lparr>display_menu := b\<rparr>)) =
     (if b then np_children (props s) else []) @ np_children (props s)"
    by (simp add: navbar_view_def comp_def)
qed

text \<open>
  C24 (refinement): every run of lifecycle events on a Navbar succeeds, and its result is
  the abstract run: the state holds the properties of the last \<open>NewProps\<close> (or the old
  ones), the menu flag flipped once per click, and the world's style table is the old
  one written by \<open>set_fixed\<close> with the mode in force before each \<open>Mount\<close> and
  \<open>NewProps\<close>, in order; nothing is emitted.
\<close>

theorem navbar_run_refines:
  "run navbar_component (s, w) es =
     Inr (s\<lparr>props := props_after (props s) es,
            display_menu := (if even (toggles es) then display_menu s else \<not> display_menu s)\<rparr>,
          w\<lparr>styles := fold set_fixed (inits_after (props s) es) (styles w)\<rparr>)"
proof (induction es arbitrary: s w)
  case Nil
  then show ?case by simp
next
  case (Cons e es)
  show ?case
  proof (cases e)
    case Mount
    with Cons.IH show ?thesis
      by (simp add: navbar_component_simps navbar_mounted_def navbar_model_init_def)
  next
    case (Message m)
    with Cons.IH show ?thesis
      by (cases m) (simp add: navbar_component_simps)
  next
    case (NewProps p)
    with Cons.IH show ?thesis
      by (simp add: navbar_component_simps navbar_change_def navbar_model_init_def Let_def)
  qed
qed

text \<open>
  C26 (invariant): the Navbar writes only well-typed CSS values into its entries of the
  style table: after any run from a table whose \<open>navbar\<close> entries are a position
  \<open>inherit\<close> or \<open>fixed\<close> and offsets \<open>0\<close> (or absent), they still are.
\<close>

theorem navbar_run_styles_ok:
  assumes "navbar_styles_ok (styles w)" and "run navbar_component (s, w) es = Inr (s', w')"
  shows "navbar_styles_ok (styles w')"
  using run_inv [where I = "\<lambda>sw. navbar_styles_ok (styles (snd sw))" and c = navbar_component]
    navbar_step_styles_ok assms
  by fastforce

theorem navbar_run_styles_ok_witness:
  "\<exists>s' w'. run navbar_component (navbar_create top_props, \<lparr>styles = Map.empty, emitted = []\<rparr>)
      [Mount, NewProps (top_props\<lparr>fixed := Bottom\<rparr>), Message TroggleMenu] = Inr (s', w') \<and>
    navbar_styles_ok (styles w')"
proof -
  have ok: "navbar_styles_ok (styles \<lparr>styles = Map.empty, emitted = []\<rparr>)"
    by (simp add: navbar_styles_ok_def)
  have "\<exists>sw. run navbar_component (navbar_create top_props, \<lparr>styles = Map.empty, emitted = []\<rparr>)
      [Mount, NewProps (top_props\<lparr>fixed := Bottom\<rparr>), Message TroggleMenu] = Inr sw"
    by (simp add: navbar_component_simps navbar_mounted_def navbar_change_def)
  then obtain s' w' where r: "run navbar_component (navbar_create top_props, \<lparr>styles = Map.empty, emitted = []\<rparr>)
      [Mount, NewProps (top_props\<lparr>fixed := Bottom\<rparr>), Message TroggleMenu] = Inr (s', w')"
    by auto
  from navbar_run_styles_ok [OF ok r] r show ?thesis by blast
qed

text \<open>
  C27 (functional): the stale write of \<open>change\<close> (C11) is harmless exactly when the
  fixed mode stays: \<open>change\<close> leaves every world as \<open>NavbarModel.init\<close> on the new
  properties would if and only if the new properties keep the old fixed mode.
\<close>

theorem navbar_change_same_mode:
  "(\<forall>w. snd (snd (navbar_change s p w)) = w\<lparr>styles := navbar_model_init (navbar_props_from p) (styles w)\<rparr>) \<longleftrightarrow>
   fixed p = np_fixed (props s)"
proof
  assume "\<forall>w. snd (snd (navbar_change s p w)) = w\<lparr>styles := navbar_model_init (navbar_props_from p) (styles w)\<rparr>"
  then have "snd (snd (navbar_change s p \<lparr>styles = Map.empty, emitted = []\<rparr>)) =
      \<lparr>styles = navbar_model_init (navbar_props_from p) Map.empty, emitted = []\<rparr>"
    by simp
  then have "set_fixed (np_fixed (props s)) Map.empty = set_fixed (fixed p) Map.empty"
    by (simp add: navbar_change_def navbar_model_init_def navbar_props_from_def)
  then show "fixed p = np_fixed (props s)" by (simp add: set_fixed_empty_inj)
next
  assume "fixed p = np_fixed (props s)"
  then show "\<forall>w. snd (snd (navbar_change s p w)) = w\<lparr>styles := navbar_model_init (navbar_props_from p) (styles w)\<rparr>"
    by (simp add: navbar_change_def navbar_model_init_def navbar_props_from_def)
qed

end
