(* ===== verification/Carousel_Controls.thy ===== *)
theory Carousel_Controls
  imports Yew_Component
begin

text \<open>
  \<open>CarouselControls\<close> of
  \<open>src/crate/yew_styles/src/components/carousel/carousel_controls.rs\<close>: a stateless
  forwarder. Its only state is its properties (record \<open>carousel_props\<close>; the fields
  \<open>class_name\<close> and \<open>id\<close> are \<open>controls_class_name\<close> and \<open>controls_id\<close> here).
  A callback (\<open>Callback<MouseEvent>\<close>) and a \<open>NodeRef\<close> are shared handles that
  compare by identity (\<open>Rc::ptr_eq\<close>), so they are modelled by their identities
  (\<open>callback_id\<close>, \<open>node_ref\<close>), and the derived \<open>PartialEq\<close> of the properties is
  HOL equality of the record. \<open>update\<close> emits the click to the parent's callback,
  recorded in the world's log \<open>emitted\<close>; \<open>change\<close> adopts new properties only when
  they differ.
\<close>

record carousel_props =
  prev_signal :: callback_id
  next_signal :: callback_id
  controls_style :: style
  controls_palette :: palette
  controls_size :: size
  code_ref :: node_ref
  key :: string
  controls_class_name :: string
  controls_id :: string

record carousel =
  cprops :: carousel_props

datatype carousel_msg = PrevClicked mouse_event | NextClicked mouse_event

definition carousel_create :: "carousel_props \<Rightarrow> carousel" where
  "carousel_create p = \<lparr>cprops = p\<rparr>"

text \<open>\<open>Callback::emit\<close>: the parent's closure runs on the event; the world logs it.\<close>

definition emit :: "callback_id \<Rightarrow> event \<Rightarrow> world \<Rightarrow> world" where
  "emit cb ev w = w\<lparr>emitted := emitted w @ [(cb, ev)]\<rparr>"

fun carousel_update :: "carousel \<Rightarrow> carousel_msg \<Rightarrow> world \<Rightarrow> carousel \<times> bool \<times> world" where
  "carousel_update s (PrevClicked mouse_event) w =
     (s, True, emit (prev_signal (cprops s)) (EvClick mouse_event) w)"
| "carousel_update s (NextClicked mouse_event) w =
     (s, True, emit (next_signal (cprops s)) (EvClick mouse_event) w)"

definition carousel_change :: "carousel \<Rightarrow> carousel_props \<Rightarrow> carousel \<times> bool" where
  "carousel_change s p = (if cprops s \<noteq> p then (s\<lparr>cprops := p\<rparr>, True) else (s, False))"

definition controls_classes :: "string \<Rightarrow> carousel_props \<Rightarrow> string" where
  "controls_classes prefix p =
     prefix @ '' '' @ get_size (controls_size p) @ '' '' @ get_style (controls_style p) @ '' '' @
     get_palette (controls_palette p) @ '' '' @ controls_class_name p"

definition carousel_view :: "carousel \<Rightarrow> (carousel_msg, 'c) html" where
  "carousel_view s =
     VTag ''div''
       [(''class'', PStr ''carousel-control''), (''key'', PStr (key (cprops s))),
        (''ref'', PNodeRef (code_ref (cprops s)))]
       [VTag ''div''
          [(''class'', PStr ''carousel-control-left-container''), (''onclick'', POnClick (\<lambda>e. PrevClicked e))]
          [VComp ''ControllerAssets''
             [(''size'', PPair ''50'' ''50''),
              (''class_name'', PStr (controls_classes ''carousel-control-left'' (cprops s))),
              (''icon'', PIcon ChevronLeft)] []],
        VTag ''div''
          [(''class'', PStr ''carousel-control-right-container''), (''onclick'', POnClick (\<lambda>e. NextClicked e))]
          [VComp ''ControllerAssets''
             [(''size'', PPair ''50'' ''50''),
              (''class_name'', PStr (controls_classes ''carousel-control-right'' (cprops s))),
              (''icon'', PIcon ChevronRight)] []]]"

definition carousel_component :: "(carousel_props, carousel, carousel_msg, 'c) component" where
  "carousel_component =
     \<lparr>comp_create = carousel_create,
      comp_mounted = (\<lambda>s w. (s, False, w)),
      comp_update = (\<lambda>s m w. Inr (carousel_update s m w)),
      comp_change = (\<lambda>s p w. (fst (carousel_change s p), snd (carousel_change s p), w)),
      comp_view = (\<lambda>s. Inr (carousel_view s))\<rparr>"

subsection \<open>Reference definitions\<close>

text \<open>The parent callback and payload a message is forwarded to.\<close>

fun forwarded :: "carousel_props \<Rightarrow> carousel_msg \<Rightarrow> callback_id \<times> event" where
  "forwarded p (PrevClicked e) = (prev_signal p, EvClick e)"
| "forwarded p (NextClicked e) = (next_signal p, EvClick e)"

text \<open>Controls with distinct callback identities 1 and 2.\<close>

definition sample_controls :: carousel_props where
  "sample_controls = \<lparr>prev_signal = 1, next_signal = 2, controls_style = Regular,
     controls_palette = Standard, controls_size = Medium, code_ref = 0, key = [],
     controls_class_name = [], controls_id = []\<rparr>"

subsection \<open>Lemmas\<close>

lemma carousel_component_simps:
  "comp_create carousel_component = carousel_create"
  "comp_mounted carousel_component s w = (s, False, w)"
  "comp_update carousel_component s m w = Inr (carousel_update s m w)"
  "comp_change carousel_component s p w = (fst (carousel_change s p), snd (carousel_change s p), w)"
  "comp_view carousel_component s = Inr (carousel_view s)"
  by (simp_all add: carousel_component_def)

lemma carousel_update_forwarded:
  "carousel_update s m w = (s, True, emit (fst (forwarded (cprops s) m)) (snd (forwarded (cprops s) m)) w)"
  by (cases m) simp_all

lemma carousel_view_handlers:
  "handlers_html (carousel_view s) =
     [(''div'', POnClick (\<lambda>e. PrevClicked e)), (''div'', POnClick (\<lambda>e. NextClicked e))]"
  by (simp add: carousel_view_def)

text \<open>Each click message is one a user causes, on the container that carries it.\<close>

lemma carousel_ui_message: "ui_message carousel_component s m"
proof (cases m)
  case (PrevClicked e)
  show ?thesis
    by (rule ui_messageI [where h = "carousel_view s" and n = "''div''" and
          a = "POnClick (\<lambda>e. PrevClicked e)" and ev = "EvClick e"])
       (simp_all add: carousel_component_simps carousel_view_handlers PrevClicked)
next
  case (NextClicked e)
  show ?thesis
    by (rule ui_messageI [where h = "carousel_view s" and n = "''div''" and
          a = "POnClick (\<lambda>e. NextClicked e)" and ev = "EvClick e"])
       (simp_all add: carousel_component_simps carousel_view_handlers NextClicked)
qed

subsection \<open>Properties\<close>

text \<open>
  C15 (functional): the controls carry two click callbacks, on the left and the right
  container; a click on either, folded by the scheduler, emits the unchanged mouse event
  to the parent's \<open>prev_signal\<close> or \<open>next_signal\<close> and leaves the state alone.
\<close>

theorem carousel_click_forwarded:
  "handlers_html (carousel_view s) =
     [(''div'', POnClick (\<lambda>e. PrevClicked e)), (''div'', POnClick (\<lambda>e. NextClicked e))] \<and>
   run carousel_component (s, w) [Message (PrevClicked e)] =
     Inr (s, w\<lparr>emitted := emitted w @ [(prev_signal (cprops s), EvClick e)]\<rparr>) \<and>
   run carousel_component (s, w) [Message (NextClicked e)] =
     Inr (s, w\<lparr>emitted := emitted w @ [(next_signal (cprops s), EvClick e)]\<rparr>)"
  by (simp add: carousel_view_handlers carousel_component_simps emit_def)

text \<open>
  C16 (safety): a run of click messages never changes the component's state and emits
  exactly one forwarded event per message, in the order of the messages.
\<close>

theorem carousel_run_messages:
  "run carousel_component (s, w) (map Message ms) =
     Inr (s, w\<lparr>emitted := emitted w @ map (forwarded (cprops s)) ms\<rparr>)"
proof (induction ms arbitrary: w)
  case Nil
  then show ?case by simp
next
  case (Cons m ms)
  then show ?case
    by (simp add: carousel_component_simps carousel_update_forwarded emit_def)
qed

text \<open>
  C17 (functional): \<open>change\<close> with properties equal to the current ones asks for no
  render and keeps the state; with different properties, such as a callback of another
  identity, it adopts them and asks for a render.
\<close>

theorem carousel_change_contract:
  assumes "p \<noteq> cprops s"
  shows "carousel_change s p = (\<lparr>cprops = p\<rparr>, True) \<and> carousel_change s (cprops s) = (s, False)"
  using assms by (simp add: carousel_change_def)

theorem carousel_change_contract_witness:
  "carousel_change (carousel_create sample_controls) (sample_controls\<lparr>prev_signal := 3\<rparr>) =
     (\<lparr>cprops = sample_controls\<lparr>prev_signal := 3\<rparr>\<rparr>, True) \<and>
   carousel_change (carousel_create sample_controls) sample_controls = (carousel_create sample_controls, False)"
proof -
  have "sample_controls\<lparr>prev_signal := 3\<rparr> \<noteq> cprops (carousel_create sample_controls)"
    by (simp add: sample_controls_def carousel_create_def)
  from carousel_change_contract [OF this] show ?thesis by (simp add: carousel_create_def)
qed

text \<open>
  C19 (functional): the class string of a control is a pure function of the properties
  that determines them back: two property sets give the same class string exactly when
  their size, style, palette and custom class agree.
\<close>

theorem controls_classes_determine:
  "controls_classes pre p = controls_classes pre q \<longleftrightarrow>
     controls_size p = controls_size q \<and> controls_style p = controls_style q \<and>
     controls_palette p = controls_palette q \<and> controls_class_name p = controls_class_name q"
  by (simp add: controls_classes_def class_token_sep_eqs)

text \<open>
  C25 (liveness): from every state a user can make the controls emit any sequence of
  forwarded clicks to the parent, in order, by clicking the left and right containers;
  the state stays as it is.
\<close>

theorem carousel_ui_emits:
  "ui_steps carousel_component (s, w) (s, w\<lparr>emitted := emitted w @ map (forwarded (cprops s)) ms\<rparr>)"
proof (induction ms arbitrary: w)
  case Nil
  then show ?case by (simp add: ui_refl)
next
  case (Cons m ms)
  let ?w1 = "w\<lparr>emitted := emitted w @ [forwarded (cprops s) m]\<rparr>"
  have "comp_update carousel_component s m w = Inr (s, True, ?w1)"
    by (simp add: carousel_component_simps carousel_update_forwarded emit_def)
  from ui_step [OF carousel_ui_message this Cons.IH [of ?w1]] show ?case by simp
qed

end
