(* ===== verification/Spec2Isabelle.thy ===== *)
theory Spec2Isabelle
  imports Form_Page Navbar Carousel_Controls
begin

text \<open>
  A verification development for the styled component library \<open>yew_styles\<close> and its
  demo pages (repository spielrs/yewstyle-page). Three source files are modelled, each
  by one theory:
  \<^item> \<open>src/crate/src/page/form_pages.rs\<close>, the demo page \<open>FormPage\<close> (theory
    \<open>Form_Page\<close>): a vector of 50 input strings and a multi-select result, written by
    the messages its input and select callbacks produce;
  \<^item> \<open>src/crate/yew_styles/src/components/navbar/navbar.rs\<close>, the \<open>Navbar\<close>
    (theory \<open>Navbar\<close>): a menu-visibility flag, CSS tokens derived from its
    properties, and the CSS position of the \<open>navbar\<close> elements stored in a
    process-wide style table by \<open>NavbarModel\<close>;
  \<^item> \<open>src/crate/yew_styles/src/components/carousel/carousel_controls.rs\<close>, the
    \<open>CarouselControls\<close> (theory \<open>Carousel_Controls\<close>): a stateless forwarder of
    two click callbacks whose \<open>change\<close> compares its properties.
  The components do not call each other: a parent passes properties down and receives
  events through callbacks, and the Navbar shares the style table with whatever else
  updates it. The theories in between model what they rely on.

  \<^bold>\<open>Library layout.\<close> \<open>Yew_Prelude\<close>: Rust's panics as the datatype \<open>panic\<close>,
  fallible results \<open>panic + 'a\<close> sequenced by \<open>bind_res\<close> in evaluation order,
  \<open>Vec\<close> indexing and assignment (\<open>vec_index\<close>, \<open>vec_set\<close>), \<open>unwrap\<close> of
  options and results, \<open>u32\<close> as a 32-bit word with the step and the variant of a
  range loop (\<open>unat_add_one_below\<close>, \<open>unat_range_variant\<close>), and Debug formatting
  of strings and string vectors; the collections \<open>res_simps\<close> and \<open>model_simps\<close>.
  \<open>Debug_Parse\<close>: reference parsers of that Debug output (\<open>parse_str_body\<close>,
  \<open>parse_pretty_vec\<close>) with the round trips \<open>parse_str_body_escaped\<close> and
  \<open>parse_pretty_vec_debug\<close>, so that a printed vector determines its values.
  \<open>Yew_Styles\<close>: the yew_styles enums, the token tables \<open>get_palette\<close>,
  \<open>get_style\<close>, \<open>get_size\<close> and \<open>create_style\<close>, which live outside the three
  files and are modelled from the spec (the token values are chosen injective lowercase
  words; the spec gives no table). \<open>Yew_Html\<close>: platform events and the DOM objects
  of a select change, the tree an \<open>html!\<close> block builds (tags and components with
  plain and callback attributes, and \<open>VForeign\<close> for the parent's children), the
  callbacks of a tree with the element carrying each, the text and children it displays,
  and the platform's delivery of events (\<open>dom_delivers\<close>, \<open>fire\<close>).
  \<open>Yew_Component\<close>: the update/render contract of section 4.1 of the spec as a record
  type of operations over a \<open>world\<close> (style table, log of emitted callbacks); the
  scheduler \<open>run\<close> folds lifecycle events and renders after every step that asks for
  it, a panic aborting the run; \<open>mount\<close> is create, first render, \<open>mounted\<close>;
  \<open>ui_reachable\<close> is the inductive set of states a user reaches, where messages come
  only from the callbacks of the current rendering fired by delivered events, and
  \<open>ui_steps\<close> are the paths user events alone drive from a given state. The generic
  rules \<open>ui_reachable_inv\<close> and \<open>run_inv\<close> carry each component's invariants.

  \<^bold>\<open>FormPage.\<close> \<open>form_page\<close> is the struct (\<open>value_vec\<close> is its field
  \<open>value\<close>), \<open>msg\<close> its messages, \<open>form_page_create\<close>, \<open>form_page_update\<close>
  (the index panic of the assignment as \<open>Inl\<close>) and \<open>form_page_change\<close> the trait
  methods; \<open>input_callback\<close>, \<open>select_callback\<close>, \<open>multi_select_callback\<close> are
  the closures of the view, the last with its loop \<open>collect_selected\<close> over the
  \<open>u32\<close> range \<open>0..options.length()\<close>, a function that terminates by the measure
  \<open>unat (options_length options) - unat i\<close>; \<open>get_form_inputs\<close>,
  \<open>get_select_form\<close> and \<open>form_page_view\<close> are the \<open>html!\<close> blocks. Claims:
  safety of every reachable state (C1: it renders, and every delivered event yields a
  message that updates without panic); the 50-slot invariant (C2) and the blank slots 4
  to 49 with a bounded multi-select result (C21, \<open>form_page_shape\<close>); a refinement of
  runs of input messages to the last-write store \<open>last_write\<close> (C3); the frame of one
  update and its panic out of range (C4, C5); the equivalence of the loop with
  \<open>selected_values\<close> (C6); the end-to-end example of section 8 of the spec (C7); the
  panic of the view with fewer than four slots (C8); the input and the multi-select
  display round trips (C9, C23); and the empty selection (C28).

  \<^bold>\<open>Navbar.\<close> \<open>nav_props\<close> is \<open>Props\<close>, \<open>navbar_props\<close> is
  \<open>NavbarProps\<close> with \<open>navbar_props_from\<close> its \<open>From\<close>, \<open>navbar\<close> the
  state; \<open>set_fixed\<close> and \<open>navbar_model_init\<close> are \<open>NavbarModel\<close>;
  \<open>navbar_mounted\<close>, \<open>navbar_update\<close>, \<open>navbar_change\<close>, \<open>navbar_view\<close> the
  trait methods. Claims: the menu display (C10) and the mount (C14); the style table:
  \<open>change\<close> stores the position of the previous properties (C11), which is harmless
  exactly when the fixed mode stays (C27), no offset is ever cleared (C12), any run
  touches only the three \<open>navbar\<close> entries (C13) and leaves them well-typed CSS values
  (C26, \<open>navbar_styles_ok\<close>); the class strings determine the variants (C20); the menu
  can always be opened or closed by one click (C22); and every run refines to an
  abstract run (C24: \<open>props_after\<close>, \<open>toggles\<close>, \<open>inits_after\<close>), the last
  properties, the parity of the clicks, and the style table written with the mode in
  force before each mount or reconfiguration.

  \<^bold>\<open>CarouselControls.\<close> \<open>carousel_props\<close> with callbacks and node refs as
  identities, \<open>carousel_update\<close> emitting through \<open>emit\<close> into the world's log,
  \<open>carousel_change\<close> and \<open>carousel_view\<close>. Claims: clicks are forwarded unchanged
  (C15); runs of clicks emit one event each in order and keep the state (C16); a user can
  make the controls emit any sequence of forwarded clicks (C25); \<open>change\<close> re-renders
  exactly when the properties differ (C17); the class string determines the variants
  (C19).

  \<^bold>\<open>Across components\<close> (this theory): \<open>reconfigure_contract\<close> states the
  reconfigure contract of section 4.1; C18 shows that CarouselControls and FormPage
  honour it and the Navbar does not.

  \<^bold>\<open>Bounds.\<close> No fuel is used: every loop is a terminating function. The option
  collection's length and indices are \<open>u32\<close> words, as web-sys has them; the length
  of the list is converted with \<open>of_nat\<close>, which wraps at \<open>2 ^ 32\<close>, and the
  platform relation \<open>dom_delivers\<close> delivers only collections of fewer than
  \<open>2 ^ 32\<close> entries, the range of the DOM's \<open>unsigned long\<close>, which C1 and C6 rely
  on. Below the bound the counter's \<open>i + 1\<close> never wraps (\<open>unat_add_one_below\<close>).
  The slot index of a message is a \<open>usize\<close> that is only compared and used to index,
  so it is a natural number; no other machine integer is computed with.

  \<^bold>\<open>Platform assumption.\<close> \<open>dom_delivers\<close> lets a select change carry any
  collection of option elements, not only the four options the page renders, with any
  selection. This over-approximates what a user can send, so the safety and invariant
  claims over reachable states (C1, C2, C21) cover more than the real page; no claim
  says that a particular state is reachable.

  \<^bold>\<open>Not modelled.\<close> Of the three source files every line is translated except the
  \<open>use\<close> imports; the \<open>#[prop_or]\<close> defaults of the properties are not separate
  definitions. Outside them, the markup of the yew_styles components (\<open>Item\<close>,
  \<open>FormInput\<close>, \<open>FormSelect\<close>, \<open>NavbarContainer\<close>, \<open>NavbarItem\<close>,
  \<open>ControllerAssets\<close> and the rest), rendered as named nodes, whose forwarding of DOM
  events is the delivery relation \<open>dom_delivers\<close>; the CSS behind the token tables;
  the icon assets; the DOM binding layer; the parent closures behind callbacks (only
  their identities and the events sent to them are recorded); and Rust's escaping of
  non-printable non-ASCII characters in Debug output.
\<close>

subsection \<open>The reconfigure contract across the components\<close>

text \<open>
  Section 4.1 of the spec: \<open>reconfigure\<close> compares the old and the new configuration;
  when they are equal it keeps the state and asks for no render, otherwise it adopts the
  new configuration (as the component stores it, \<open>conv\<close>) and asks for a render.
  \<open>cfg\<close> reads the stored configuration out of the state.
\<close>

definition reconfigure_contract ::
  "('s \<Rightarrow> 'q) \<Rightarrow> ('p \<Rightarrow> 'q) \<Rightarrow> ('s \<Rightarrow> 'p \<Rightarrow> 's \<times> bool) \<Rightarrow> bool" where
  "reconfigure_contract cfg conv change \<longleftrightarrow>
     (\<forall>s p. (conv p = cfg s \<longrightarrow> change s p = (s, False)) \<and>
            (conv p \<noteq> cfg s \<longrightarrow> snd (change s p) \<and> cfg (fst (change s p)) = conv p))"

text \<open>
  C18 (functional): \<open>CarouselControls::change\<close> and \<open>FormPage::change\<close> (whose
  properties are \<open>()\<close>, so always equal) honour the contract; \<open>Navbar::change\<close> does
  not: it asks for a render even when the new properties equal the stored ones.
\<close>

theorem reconfigure_contracts:
  "reconfigure_contract cprops id carousel_change \<and>
   reconfigure_contract (\<lambda>_. ()) id form_page_change \<and>
   \<not> reconfigure_contract (props :: unit navbar \<Rightarrow> unit navbar_props) navbar_props_from
       (\<lambda>s p. (fst (navbar_change s p \<lparr>styles = Map.empty, emitted = []\<rparr>),
               fst (snd (navbar_change s p \<lparr>styles = Map.empty, emitted = []\<rparr>))))"
proof (intro conjI)
  show "reconfigure_contract cprops id carousel_change"
    by (simp add: reconfigure_contract_def carousel_change_def)
  show "reconfigure_contract (\<lambda>_. ()) id form_page_change"
    by (simp add: reconfigure_contract_def form_page_change_def)
  let ?s = "navbar_create top_props"
  have "navbar_props_from top_props = props ?s" by (simp add: navbar_create_def)
  moreover have "fst (snd (navbar_change ?s top_props \<lparr>styles = Map.empty, emitted = []\<rparr>))"
    by (simp add: navbar_change_def)
  ultimately show "\<not> reconfigure_contract (props :: unit navbar \<Rightarrow> unit navbar_props) navbar_props_from
       (\<lambda>s p. (fst (navbar_change s p \<lparr>styles = Map.empty, emitted = []\<rparr>),
               fst (snd (navbar_change s p \<lparr>styles = Map.empty, emitted = []\<rparr>))))"
    unfolding reconfigure_contract_def by fastforce
qed

theorem reconfigure_contracts_witness:
  "reconfigure_contract cprops id carousel_change \<and>
   carousel_change (carousel_create sample_controls) sample_controls = (carousel_create sample_controls, False)"
proof -
  have c: "reconfigure_contract cprops id carousel_change"
    using reconfigure_contracts by blast
  then have "id sample_controls = cprops (carousel_create sample_controls) \<longrightarrow>
      carousel_change (carousel_create sample_controls) sample_controls =
      (carousel_create sample_controls, False)"
    unfolding reconfigure_contract_def by blast
  then have "carousel_change (carousel_create sample_controls) sample_controls =
      (carousel_create sample_controls, False)"
    by (simp add: carousel_create_def)
  with c show ?thesis by blast
qed


end
